theory Spec2Isabelle
  imports Main "HOL-Library.Countable"
begin

section \<open>Common types of the Veritas contracts\<close>

text \<open>
  Addresses are natural numbers, \<open>0\<close> being \<open>address(0)\<close>. Every \<open>uint256\<close> is a natural
  number; Solidity 0.8 arithmetic is checked, so each addition, increment and multiplication
  of the source is guarded by an explicit comparison with \<open>MAX_UINT256\<close> and the operation
  reverts with \<open>Panic\<close> beyond it. A \<open>bytes32\<close> identifier is a natural number as well,
  \<open>0\<close> being \<open>bytes32(0)\<close>; \<open>keccak256\<close> is a parameter of the functions that hash.
  A call that reverts returns \<open>Inl\<close> of the error and no state: the state before the call
  is the state after it.
\<close>

type_synonym address = nat

type_synonym bytes32 = nat

definition MAX_UINT256 :: nat where
  "MAX_UINT256 = 2 ^ 256 - 1"

datatype error =
    InvalidTrade
  | InvalidStatus
  | Unauthorized
  | InvalidRating
  | TokenNotSupported
  | InsufficientAmount
  | DisputeWindowClosed
  | AlreadyRated
  | TradeNotExpired
  | AccessControlUnauthorizedAccount
  | Panic
  | EnforcedPause
  | ExpectedPause
  | FeeTooHigh
  | ERC20InsufficientBalance
  | ERC20InsufficientAllowance
  | SoulboundTokenNonTransferable
  | BadgeAlreadyExists
  | InvalidTier
  | ZeroAddress
  | ERC721InvalidReceiver
  | InvalidTierThreshold
  | UnsupportedChain
  | InsufficientLiquidity
  | MessageAlreadyProcessed
  | InvalidMessageSource
  | RouterFailure
  | AbiDecodeError

datatype role =
    DEFAULT_ADMIN_ROLE
  | ESCROW_ROLE
  | DISPUTE_RESOLVER_ROLE
  | CROSS_CHAIN_ROLE
  | MINTER_ROLE
  | URI_SETTER_ROLE
  | PAUSER_ROLE
  | OPERATOR_ROLE

section \<open>VeritasSoulboundBadge\<close>

datatype BadgeTier = NoTier | Bronze | Silver | Gold | Platinum | Diamond

text \<open>The cast \<open>uint8(tier)\<close>.\<close>

fun tier_rank :: "BadgeTier \<Rightarrow> nat" where
  "tier_rank NoTier = 0"
| "tier_rank Bronze = 1"
| "tier_rank Silver = 2"
| "tier_rank Gold = 3"
| "tier_rank Platinum = 4"
| "tier_rank Diamond = 5"

record BadgeMetadata =
  tier :: BadgeTier
  tradesAtMint :: nat
  ratingAtMint :: nat
  mintTimestamp :: nat
  sourceChainId :: nat

record badge_state =
  tokenIdCounter :: nat
  badgeMetadata :: "nat \<Rightarrow> BadgeMetadata"
  userBadges :: "address \<Rightarrow> BadgeTier \<Rightarrow> nat"
  userHighestTier :: "address \<Rightarrow> BadgeTier"
  owners :: "nat \<Rightarrow> address"
  badgeRoles :: "role \<Rightarrow> address \<Rightarrow> bool"

text \<open>The constructor: the deployer is admin, minter and URI setter; every mapping is zero.\<close>

definition badge_init :: "address \<Rightarrow> badge_state" where
  "badge_init deployer =
     \<lparr> tokenIdCounter = 0,
       badgeMetadata = (\<lambda>_. \<lparr> tier = NoTier, tradesAtMint = 0, ratingAtMint = 0,
                                mintTimestamp = 0, sourceChainId = 0 \<rparr>),
       userBadges = (\<lambda>_ _. 0),
       userHighestTier = (\<lambda>_. NoTier),
       owners = (\<lambda>_. 0),
       badgeRoles = (\<lambda>r a. a = deployer \<and> r \<in> {DEFAULT_ADMIN_ROLE, MINTER_ROLE, URI_SETTER_ROLE}) \<rparr>"

text \<open>
  \<open>grantRole\<close> of AccessControl: the admin role of every role is \<open>DEFAULT_ADMIN_ROLE\<close>.
\<close>

definition badge_grantRole :: "address \<Rightarrow> role \<Rightarrow> address \<Rightarrow> badge_state \<Rightarrow> error + badge_state" where
  "badge_grantRole sender r account b =
     (if \<not> badgeRoles b DEFAULT_ADMIN_ROLE sender then Inl AccessControlUnauthorizedAccount
      else Inr (b\<lparr> badgeRoles := (badgeRoles b)(r := (badgeRoles b r)(account := True)) \<rparr>))"

text \<open>
  \<open>mintBadge\<close>. The ERC721 base contract is a library outside the repository: of
  \<open>_safeMint\<close> the model keeps the owner table, the overridden \<open>_update\<close> (which refuses a
  token that already has an owner) and the receiver check, whose answer for each recipient
  is the parameter \<open>rcv\<close> (an externally owned account always accepts).
\<close>

definition mintBadge ::
  "address \<Rightarrow> nat \<Rightarrow> (address \<Rightarrow> bool) \<Rightarrow> address \<Rightarrow> BadgeTier \<Rightarrow> nat \<Rightarrow> nat \<Rightarrow> nat
     \<Rightarrow> badge_state \<Rightarrow> error + (nat \<times> badge_state)" where
  "mintBadge sender now rcv to t trades rating srcChain b =
     (if \<not> badgeRoles b MINTER_ROLE sender then Inl AccessControlUnauthorizedAccount
      else if to = 0 then Inl ZeroAddress
      else if t = NoTier then Inl InvalidTier
      else if userBadges b to t \<noteq> 0 then Inl BadgeAlreadyExists
      else if tokenIdCounter b + 1 > MAX_UINT256 then Inl Panic
      else
        let tokenId = tokenIdCounter b + 1;
            b1 = b\<lparr> tokenIdCounter := tokenId,
                    badgeMetadata := (badgeMetadata b)(tokenId :=
                       \<lparr> tier = t, tradesAtMint = trades, ratingAtMint = rating,
                         mintTimestamp = now, sourceChainId = srcChain \<rparr>),
                    userBadges := (userBadges b)(to := (userBadges b to)(t := tokenId)) \<rparr>;
            b2 = (if tier_rank t > tier_rank (userHighestTier b1 to)
                  then b1\<lparr> userHighestTier := (userHighestTier b1)(to := t) \<rparr>
                  else b1)
        in if owners b2 tokenId \<noteq> 0 then Inl SoulboundTokenNonTransferable
           else if \<not> rcv to then Inl ERC721InvalidReceiver
           else Inr (tokenId, b2\<lparr> owners := (owners b2)(tokenId := to) \<rparr>))"

text \<open>
  \<open>upgradeBadge\<close> mints through \<open>this.mintBadge\<close>, an external call whose sender is the badge
  contract itself (\<open>self\<close>).
\<close>

definition upgradeBadge ::
  "address \<Rightarrow> address \<Rightarrow> nat \<Rightarrow> (address \<Rightarrow> bool) \<Rightarrow> address \<Rightarrow> BadgeTier \<Rightarrow> nat \<Rightarrow> nat \<Rightarrow> nat
     \<Rightarrow> badge_state \<Rightarrow> error + (nat \<times> badge_state)" where
  "upgradeBadge self sender now rcv holder newTier trades rating srcChain b =
     (if \<not> badgeRoles b MINTER_ROLE sender then Inl AccessControlUnauthorizedAccount
      else if tier_rank newTier \<le> tier_rank (userHighestTier b holder) then Inl InvalidTier
      else mintBadge self now rcv holder newTier trades rating srcChain b)"

definition hasMinimumTier :: "badge_state \<Rightarrow> address \<Rightarrow> BadgeTier \<Rightarrow> bool" where
  "hasMinimumTier b user minTier \<longleftrightarrow> tier_rank (userHighestTier b user) \<ge> tier_rank minTier"

section \<open>ReputationEngine\<close>

record UserReputation =
  totalTrades :: nat
  successfulTrades :: nat
  disputesWon :: nat
  disputesLost :: nat
  totalRatingPoints :: nat
  ratingCount :: nat
  lastTradeTimestamp :: nat
  joinTimestamp :: nat
  isActive :: bool

record TradeRecord =
  rec_tradeId :: bytes32
  counterparty :: address
  rec_amount :: nat
  rating :: nat
  timestamp :: nat
  wasBuyer :: bool

record TierThreshold =
  minTrades :: nat
  minRating :: nat

text \<open>
  \<open>engineAddress\<close> is \<open>address(this)\<close>, the sender the badge contract sees when the engine
  calls it. The events of the engine carry no state and are left out.
\<close>

record engine_state =
  engineAddress :: address
  chainId :: nat
  userReputations :: "address \<Rightarrow> UserReputation"
  userTradeHistory :: "address \<Rightarrow> TradeRecord list"
  tierThresholds :: "BadgeTier \<Rightarrow> TierThreshold"
  processedCrossChainUpdates :: "bytes32 \<Rightarrow> bool"
  engineRoles :: "role \<Rightarrow> address \<Rightarrow> bool"

definition zeroReputation :: UserReputation where
  "zeroReputation =
     \<lparr> totalTrades = 0, successfulTrades = 0, disputesWon = 0, disputesLost = 0,
       totalRatingPoints = 0, ratingCount = 0, lastTradeTimestamp = 0, joinTimestamp = 0,
       isActive = False \<rparr>"

definition engine_init :: "address \<Rightarrow> address \<Rightarrow> nat \<Rightarrow> engine_state" where
  "engine_init deployer self cid =
     \<lparr> engineAddress = self,
       chainId = cid,
       userReputations = (\<lambda>_. zeroReputation),
       userTradeHistory = (\<lambda>_. []),
       tierThresholds = (\<lambda>t. case t of
            NoTier \<Rightarrow> \<lparr> minTrades = 0, minRating = 0 \<rparr>
          | Bronze \<Rightarrow> \<lparr> minTrades = 10, minRating = 400 \<rparr>
          | Silver \<Rightarrow> \<lparr> minTrades = 25, minRating = 450 \<rparr>
          | Gold \<Rightarrow> \<lparr> minTrades = 50, minRating = 480 \<rparr>
          | Platinum \<Rightarrow> \<lparr> minTrades = 100, minRating = 490 \<rparr>
          | Diamond \<Rightarrow> \<lparr> minTrades = 250, minRating = 495 \<rparr>),
       processedCrossChainUpdates = (\<lambda>_. False),
       engineRoles = (\<lambda>r a. a = deployer \<and> r = DEFAULT_ADMIN_ROLE) \<rparr>"

definition engine_grantRole ::
  "address \<Rightarrow> role \<Rightarrow> address \<Rightarrow> engine_state \<Rightarrow> error + engine_state" where
  "engine_grantRole sender r account e =
     (if \<not> engineRoles e DEFAULT_ADMIN_ROLE sender then Inl AccessControlUnauthorizedAccount
      else Inr (e\<lparr> engineRoles := (engineRoles e)(r := (engineRoles e r)(account := True)) \<rparr>))"

definition newUser :: "nat \<Rightarrow> UserReputation" where
  "newUser now =
     \<lparr> totalTrades = 0, successfulTrades = 0, disputesWon = 0, disputesLost = 0,
       totalRatingPoints = 0, ratingCount = 0, lastTradeTimestamp = 0, joinTimestamp = now,
       isActive = True \<rparr>"

text \<open>\<open>registerUser\<close> is external and carries no role modifier.\<close>

definition registerUser :: "address \<Rightarrow> nat \<Rightarrow> address \<Rightarrow> engine_state \<Rightarrow> error + engine_state" where
  "registerUser sender now user e =
     (if \<not> isActive (userReputations e user)
      then Inr (e\<lparr> userReputations := (userReputations e)(user := newUser now) \<rparr>)
      else Inr e)"

definition ensureRegistered :: "nat \<Rightarrow> address \<Rightarrow> engine_state \<Rightarrow> engine_state" where
  "ensureRegistered now user e =
     (if \<not> isActive (userReputations e user)
      then e\<lparr> userReputations := (userReputations e)(user := newUser now) \<rparr>
      else e)"

definition calculateAverageRating :: "engine_state \<Rightarrow> address \<Rightarrow> nat" where
  "calculateAverageRating e user =
     (let rep = userReputations e user
      in if ratingCount rep = 0 then 0 else totalRatingPoints rep div ratingCount rep)"

definition meetsThreshold :: "engine_state \<Rightarrow> BadgeTier \<Rightarrow> nat \<Rightarrow> nat \<Rightarrow> bool" where
  "meetsThreshold e t trades r \<longleftrightarrow>
     trades \<ge> minTrades (tierThresholds e t) \<and> r \<ge> minRating (tierThresholds e t)"

definition determineEligibleTier :: "engine_state \<Rightarrow> nat \<Rightarrow> nat \<Rightarrow> BadgeTier" where
  "determineEligibleTier e trades r =
     (if meetsThreshold e Diamond trades r then Diamond
      else if meetsThreshold e Platinum trades r then Platinum
      else if meetsThreshold e Gold trades r then Gold
      else if meetsThreshold e Silver trades r then Silver
      else if meetsThreshold e Bronze trades r then Bronze
      else NoTier)"

text \<open>
  The eviction loop of \<open>_updateReputation\<close>:
  \<open>for (i = 0; i < history.length - 1; i++) history[i] = history[i + 1]\<close>, then \<open>pop\<close>.
\<close>

function shift_down :: "nat \<Rightarrow> 'a list \<Rightarrow> 'a list" where
  "shift_down i xs = (if i + 1 < length xs then shift_down (i + 1) (xs[i := xs ! (i + 1)]) else xs)"
  by pat_completeness auto
termination
  by (relation "measure (\<lambda>(i, xs). length xs - i)") auto

definition updateReputation ::
  "nat \<Rightarrow> address \<Rightarrow> nat \<Rightarrow> address \<Rightarrow> nat \<Rightarrow> bytes32 \<Rightarrow> bool \<Rightarrow> engine_state \<Rightarrow> error + engine_state" where
  "updateReputation now user r cp amt tid wasB e =
     (let rep = userReputations e user
      in if totalTrades rep + 1 > MAX_UINT256 \<or> successfulTrades rep + 1 > MAX_UINT256
            \<or> totalRatingPoints rep + r > MAX_UINT256 \<or> ratingCount rep + 1 > MAX_UINT256
         then Inl Panic
         else
           let rep' = rep\<lparr> totalTrades := totalTrades rep + 1,
                           successfulTrades := successfulTrades rep + 1,
                           totalRatingPoints := totalRatingPoints rep + r,
                           ratingCount := ratingCount rep + 1,
                           lastTradeTimestamp := now \<rparr>;
               history = userTradeHistory e user;
               kept = (if length history \<ge> 100 then butlast (shift_down 0 history) else history);
               entry = \<lparr> rec_tradeId = tid, counterparty = cp, rec_amount = amt, rating = r,
                         timestamp = now, wasBuyer = wasB \<rparr>
           in Inr (e\<lparr> userReputations := (userReputations e)(user := rep'),
                      userTradeHistory := (userTradeHistory e)(user := kept @ [entry]) \<rparr>))"

text \<open>
  \<open>_checkAndMintBadge\<close>: the mint is an external call inside \<open>try ... catch\<close>, so a revert of
  the badge contract leaves the badge state as it was and the engine goes on.
\<close>

definition checkAndMintBadge ::
  "nat \<Rightarrow> (address \<Rightarrow> bool) \<Rightarrow> address \<Rightarrow> engine_state \<Rightarrow> badge_state \<Rightarrow> badge_state" where
  "checkAndMintBadge now rcv user e b =
     (let rep = userReputations e user;
          avgRating = calculateAverageRating e user;
          currentHighest = userHighestTier b user;
          newTier = determineEligibleTier e (successfulTrades rep) avgRating
      in if tier_rank newTier > tier_rank currentHighest
         then (case mintBadge (engineAddress e) now rcv user newTier (successfulTrades rep)
                       avgRating (chainId e) b of
                 Inr (tokenId, b') \<Rightarrow> b'
               | Inl err \<Rightarrow> b)
         else b)"

definition recordTrade ::
  "address \<Rightarrow> nat \<Rightarrow> (address \<Rightarrow> bool) \<Rightarrow> bytes32 \<Rightarrow> address \<Rightarrow> address \<Rightarrow> nat \<Rightarrow> nat \<Rightarrow> nat
     \<Rightarrow> engine_state \<times> badge_state \<Rightarrow> error + (engine_state \<times> badge_state)" where
  "recordTrade sender now rcv tid sellerA buyerA amt sellerRatingV buyerRatingV eb =
     (let e = fst eb; b = snd eb
      in if \<not> engineRoles e ESCROW_ROLE sender then Inl AccessControlUnauthorizedAccount
         else if sellerRatingV < 100 \<or> sellerRatingV > 500 then Inl InvalidRating
         else if buyerRatingV < 100 \<or> buyerRatingV > 500 then Inl InvalidRating
         else
           let e1 = ensureRegistered now sellerA e;
               e2 = ensureRegistered now buyerA e1
           in case updateReputation now sellerA sellerRatingV buyerA amt tid False e2 of
                Inl err \<Rightarrow> Inl err
              | Inr e3 \<Rightarrow>
                 (case updateReputation now buyerA buyerRatingV sellerA amt tid True e3 of
                    Inl err \<Rightarrow> Inl err
                  | Inr e4 \<Rightarrow>
                      let b1 = checkAndMintBadge now rcv sellerA e4 b;
                          b2 = checkAndMintBadge now rcv buyerA e4 b1
                      in Inr (e4, b2)))"

definition recordDisputeResolution ::
  "address \<Rightarrow> bytes32 \<Rightarrow> address \<Rightarrow> address \<Rightarrow> engine_state \<Rightarrow> error + engine_state" where
  "recordDisputeResolution sender tid winnerA loserA e =
     (if \<not> engineRoles e DISPUTE_RESOLVER_ROLE sender then Inl AccessControlUnauthorizedAccount
      else if disputesWon (userReputations e winnerA) + 1 > MAX_UINT256 then Inl Panic
      else
        let w = userReputations e winnerA;
            e1 = e\<lparr> userReputations := (userReputations e)(winnerA := w\<lparr> disputesWon := disputesWon w + 1 \<rparr>) \<rparr>
        in if disputesLost (userReputations e1 loserA) + 1 > MAX_UINT256 then Inl Panic
           else
             let l = userReputations e1 loserA
             in Inr (e1\<lparr> userReputations := (userReputations e1)(loserA := l\<lparr> disputesLost := disputesLost l + 1 \<rparr>) \<rparr>))"

definition syncCrossChainReputation ::
  "address \<Rightarrow> nat \<Rightarrow> (address \<Rightarrow> bool) \<Rightarrow> address \<Rightarrow> nat \<Rightarrow> nat \<Rightarrow> nat \<Rightarrow> nat \<Rightarrow> bytes32
     \<Rightarrow> engine_state \<times> badge_state \<Rightarrow> error + (engine_state \<times> badge_state)" where
  "syncCrossChainReputation sender now rcv user sourceChain addTrades addPoints addCount syncId eb =
     (let e = fst eb; b = snd eb
      in if \<not> engineRoles e CROSS_CHAIN_ROLE sender then Inl AccessControlUnauthorizedAccount
         else if processedCrossChainUpdates e syncId then Inr (e, b)
         else
           let e1 = e\<lparr> processedCrossChainUpdates := (processedCrossChainUpdates e)(syncId := True) \<rparr>;
               e2 = ensureRegistered now user e1;
               rep = userReputations e2 user
           in if totalTrades rep + addTrades > MAX_UINT256
                 \<or> successfulTrades rep + addTrades > MAX_UINT256
                 \<or> totalRatingPoints rep + addPoints > MAX_UINT256
                 \<or> ratingCount rep + addCount > MAX_UINT256
              then Inl Panic
              else
                let rep' = rep\<lparr> totalTrades := totalTrades rep + addTrades,
                                successfulTrades := successfulTrades rep + addTrades,
                                totalRatingPoints := totalRatingPoints rep + addPoints,
                                ratingCount := ratingCount rep + addCount \<rparr>;
                    e3 = e2\<lparr> userReputations := (userReputations e2)(user := rep') \<rparr>
                in Inr (e3, checkAndMintBadge now rcv user e3 b))"

text \<open>The view \<open>getReputation\<close>, a tuple of seven values.\<close>

definition getReputation ::
  "engine_state \<Rightarrow> badge_state \<Rightarrow> address \<Rightarrow> nat \<times> nat \<times> nat \<times> nat \<times> nat \<times> nat \<times> BadgeTier" where
  "getReputation e b user =
     (let rep = userReputations e user
      in (totalTrades rep, successfulTrades rep, calculateAverageRating e user,
          disputesWon rep, disputesLost rep, joinTimestamp rep, userHighestTier b user))"

definition updateTierThreshold ::
  "address \<Rightarrow> BadgeTier \<Rightarrow> nat \<Rightarrow> nat \<Rightarrow> engine_state \<Rightarrow> error + engine_state" where
  "updateTierThreshold sender t mt mr e =
     (if \<not> engineRoles e DEFAULT_ADMIN_ROLE sender then Inl AccessControlUnauthorizedAccount
      else if t = NoTier then Inl InvalidTierThreshold
      else Inr (e\<lparr> tierThresholds := (tierThresholds e)(t := \<lparr> minTrades = mt, minRating = mr \<rparr>) \<rparr>))"

text \<open>
  A sequence of calls to the reputation engine and the badge contract, each with its
  \<open>msg.sender\<close> and block timestamp. A call that reverts changes nothing. \<open>badgeSelf\<close> is the
  address of the badge contract.
\<close>

datatype rep_call =
    RegisterUser address
  | RecordTrade bytes32 address address nat nat nat
  | RecordDisputeResolution bytes32 address address
  | SyncCrossChainReputation address nat nat nat nat bytes32
  | UpdateTierThreshold BadgeTier nat nat
  | EngineGrantRole role address
  | MintBadge address BadgeTier nat nat nat
  | UpgradeBadge address BadgeTier nat nat nat
  | BadgeGrantRole role address

fun rep_step ::
  "address \<Rightarrow> (address \<Rightarrow> bool) \<Rightarrow> address \<times> nat \<times> rep_call
     \<Rightarrow> engine_state \<times> badge_state \<Rightarrow> engine_state \<times> badge_state" where
  "rep_step badgeSelf rcv (sender, now, RegisterUser user) (e, b) =
     (case registerUser sender now user e of Inl err \<Rightarrow> (e, b) | Inr e' \<Rightarrow> (e', b))"
| "rep_step badgeSelf rcv (sender, now, RecordTrade tid s bu amt sr br) (e, b) =
     (case recordTrade sender now rcv tid s bu amt sr br (e, b) of Inl err \<Rightarrow> (e, b) | Inr eb \<Rightarrow> eb)"
| "rep_step badgeSelf rcv (sender, now, RecordDisputeResolution tid wi lo) (e, b) =
     (case recordDisputeResolution sender tid wi lo e of Inl err \<Rightarrow> (e, b) | Inr e' \<Rightarrow> (e', b))"
| "rep_step badgeSelf rcv (sender, now, SyncCrossChainReputation user src tr pts cnt sid) (e, b) =
     (case syncCrossChainReputation sender now rcv user src tr pts cnt sid (e, b) of
        Inl err \<Rightarrow> (e, b) | Inr eb \<Rightarrow> eb)"
| "rep_step badgeSelf rcv (sender, now, UpdateTierThreshold t mt mr) (e, b) =
     (case updateTierThreshold sender t mt mr e of Inl err \<Rightarrow> (e, b) | Inr e' \<Rightarrow> (e', b))"
| "rep_step badgeSelf rcv (sender, now, EngineGrantRole r a) (e, b) =
     (case engine_grantRole sender r a e of Inl err \<Rightarrow> (e, b) | Inr e' \<Rightarrow> (e', b))"
| "rep_step badgeSelf rcv (sender, now, MintBadge to t tr ra src) (e, b) =
     (case mintBadge sender now rcv to t tr ra src b of Inl err \<Rightarrow> (e, b) | Inr (tokenId, b') \<Rightarrow> (e, b'))"
| "rep_step badgeSelf rcv (sender, now, UpgradeBadge to t tr ra src) (e, b) =
     (case upgradeBadge badgeSelf sender now rcv to t tr ra src b of
        Inl err \<Rightarrow> (e, b) | Inr (tokenId, b') \<Rightarrow> (e, b'))"
| "rep_step badgeSelf rcv (sender, now, BadgeGrantRole r a) (e, b) =
     (case badge_grantRole sender r a b of Inl err \<Rightarrow> (e, b) | Inr b' \<Rightarrow> (e, b'))"

fun rep_run ::
  "address \<Rightarrow> (address \<Rightarrow> bool) \<Rightarrow> (address \<times> nat \<times> rep_call) list
     \<Rightarrow> engine_state \<times> badge_state \<Rightarrow> engine_state \<times> badge_state" where
  "rep_run badgeSelf rcv [] eb = eb"
| "rep_run badgeSelf rcv (c # cs) eb = rep_run badgeSelf rcv cs (rep_step badgeSelf rcv c eb)"

section \<open>The payment token\<close>

text \<open>
  The payment asset is an external ERC-20 contract. It is modelled as a ledger of balances
  and allowances per token address: a transfer fails when the balance of the source (or the
  allowance of the spender) is too small and moves the amount otherwise.
\<close>

type_synonym ledger = "address \<Rightarrow> address \<Rightarrow> nat"

type_synonym approvals = "address \<Rightarrow> address \<Rightarrow> address \<Rightarrow> nat"

definition safeTransfer :: "address \<Rightarrow> address \<Rightarrow> address \<Rightarrow> nat \<Rightarrow> ledger \<Rightarrow> error + ledger" where
  "safeTransfer tok src dst amt bal =
     (if bal tok src < amt then Inl ERC20InsufficientBalance
      else
        let b1 = (bal tok)(src := bal tok src - amt);
            b2 = b1(dst := b1 dst + amt)
        in Inr (bal(tok := b2)))"

definition safeTransferFrom ::
  "address \<Rightarrow> address \<Rightarrow> address \<Rightarrow> address \<Rightarrow> nat \<Rightarrow> ledger \<Rightarrow> approvals
     \<Rightarrow> error + (ledger \<times> approvals)" where
  "safeTransferFrom tok spender src dst amt bal alw =
     (if alw tok src spender < amt then Inl ERC20InsufficientAllowance
      else
        case safeTransfer tok src dst amt bal of
          Inl err \<Rightarrow> Inl err
        | Inr bal' \<Rightarrow>
            Inr (bal', alw(tok := (alw tok)(src := (alw tok src)(spender := alw tok src spender - amt)))))"

section \<open>VeritasEscrow\<close>

datatype TradeStatus =
    StatusNone
  | Created
  | SellerAccepted
  | Delivered
  | Completed
  | Disputed
  | Resolved
  | Cancelled
  | Expired

record Trade =
  tradeId :: bytes32
  buyer :: address
  seller :: address
  paymentToken :: address
  amount :: nat
  platformFee :: nat
  createdAt :: nat
  expiresAt :: nat
  deliveredAt :: nat
  completedAt :: nat
  status :: TradeStatus
  itemDescription :: string
  deliveryProof :: string
  buyerRating :: nat
  sellerRating :: nat

record Dispute =
  d_tradeId :: bytes32
  initiator :: address
  reason :: string
  buyerEvidence :: string
  sellerEvidence :: string
  winner :: address
  initiatedAt :: nat
  resolvedAt :: nat
  isResolved :: bool

record escrow_state =
  escrowAddress :: address
  feeRecipient :: address
  platformFeeRate :: nat
  defaultExpiryDuration :: nat
  disputeWindow :: nat
  autoReleaseDelay :: nat
  supportedTokens :: "address \<Rightarrow> bool"
  trades :: "bytes32 \<Rightarrow> Trade"
  disputes :: "bytes32 \<Rightarrow> Dispute"
  userTrades :: "address \<Rightarrow> bytes32 list"
  tradeNonce :: nat
  paused :: bool
  escrowRoles :: "role \<Rightarrow> address \<Rightarrow> bool"

definition MAX_FEE_RATE :: nat where
  "MAX_FEE_RATE = 1000"

definition BASIS_POINTS :: nat where
  "BASIS_POINTS = 10000"

definition zeroTrade :: Trade where
  "zeroTrade =
     \<lparr> tradeId = 0, buyer = 0, seller = 0, paymentToken = 0, amount = 0, platformFee = 0,
       createdAt = 0, expiresAt = 0, deliveredAt = 0, completedAt = 0, status = StatusNone,
       itemDescription = [], deliveryProof = [], buyerRating = 0, sellerRating = 0 \<rparr>"

definition zeroDispute :: Dispute where
  "zeroDispute =
     \<lparr> d_tradeId = 0, initiator = 0, reason = [], buyerEvidence = [], sellerEvidence = [],
       winner = 0, initiatedAt = 0, resolvedAt = 0, isResolved = False \<rparr>"

text \<open>
  The constructor. \<open>7 days\<close>, \<open>3 days\<close> and \<open>14 days\<close> are seconds. The deployer is admin,
  dispute resolver and pauser.
\<close>

definition escrow_init :: "address \<Rightarrow> address \<Rightarrow> address \<Rightarrow> address list \<Rightarrow> escrow_state" where
  "escrow_init deployer self feeTo initialTokens =
     \<lparr> escrowAddress = self,
       feeRecipient = feeTo,
       platformFeeRate = 250,
       defaultExpiryDuration = 7 * 86400,
       disputeWindow = 3 * 86400,
       autoReleaseDelay = 14 * 86400,
       supportedTokens = (\<lambda>t. t \<in> set initialTokens),
       trades = (\<lambda>_. zeroTrade),
       disputes = (\<lambda>_. zeroDispute),
       userTrades = (\<lambda>_. []),
       tradeNonce = 0,
       paused = False,
       escrowRoles = (\<lambda>r a. a = deployer \<and> r \<in> {DEFAULT_ADMIN_ROLE, DISPUTE_RESOLVER_ROLE, PAUSER_ROLE}) \<rparr>"

text \<open>
  The escrow calls the reputation engine, which calls the badge contract, and moves tokens:
  its functions run on the states of all of them. The non-reentrancy guard has nothing to
  guard in this model, where the token ledger calls nobody back. Every function returns the
  new state and the token transfers it made out of the escrow, as (token, recipient, amount),
  in the order of the source.
\<close>

record world =
  badge :: badge_state
  engine :: engine_state
  escrow :: escrow_state
  balances :: ledger
  allowances :: approvals

type_synonym payout = "address \<times> address \<times> nat"

definition calculateFee :: "escrow_state \<Rightarrow> nat \<Rightarrow> error + nat" where
  "calculateFee s amt =
     (if amt * platformFeeRate s > MAX_UINT256 then Inl Panic
      else Inr ((amt * platformFeeRate s) div BASIS_POINTS))"

text \<open>\<open>hash sender seller timestamp nonce\<close> is \<open>keccak256(abi.encodePacked(...))\<close>.\<close>

definition createTrade ::
  "(address \<Rightarrow> address \<Rightarrow> nat \<Rightarrow> nat \<Rightarrow> bytes32) \<Rightarrow> address \<Rightarrow> nat \<Rightarrow> address \<Rightarrow> address \<Rightarrow> nat
     \<Rightarrow> string \<Rightarrow> nat \<Rightarrow> world \<Rightarrow> error + (bytes32 \<times> world)" where
  "createTrade hash sender now sellerA tok amt descr expiryDuration w =
     (let s = escrow w
      in if paused s then Inl EnforcedPause
         else if \<not> supportedTokens s tok then Inl TokenNotSupported
         else if amt = 0 then Inl InsufficientAmount
         else if sellerA = 0 \<or> sellerA = sender then Inl InvalidTrade
         else if tradeNonce s + 1 > MAX_UINT256 then Inl Panic
         else
           let tid = hash sender sellerA now (tradeNonce s)
           in case calculateFee s amt of
                Inl err \<Rightarrow> Inl err
              | Inr fee \<Rightarrow>
                  let duration = (if expiryDuration > 0 then expiryDuration else defaultExpiryDuration s)
                  in if now + duration > MAX_UINT256 then Inl Panic
                     else
                       let trade = \<lparr> tradeId = tid, buyer = sender, seller = sellerA,
                                     paymentToken = tok, amount = amt, platformFee = fee,
                                     createdAt = now, expiresAt = now + duration, deliveredAt = 0,
                                     completedAt = 0, status = Created, itemDescription = descr,
                                     deliveryProof = [], buyerRating = 0, sellerRating = 0 \<rparr>;
                           ut1 = (userTrades s)(sender := userTrades s sender @ [tid]);
                           ut2 = ut1(sellerA := ut1 sellerA @ [tid]);
                           s1 = s\<lparr> trades := (trades s)(tid := trade), userTrades := ut2,
                                   tradeNonce := tradeNonce s + 1 \<rparr>
                       in (case safeTransferFrom tok (escrowAddress s) sender (escrowAddress s) amt
                                 (balances w) (allowances w) of
                            Inl err \<Rightarrow> Inl err
                          | Inr (bal', alw') \<Rightarrow>
                             (case registerUser (escrowAddress s) now sender (engine w) of
                                Inl err \<Rightarrow> Inl err
                              | Inr e1 \<Rightarrow>
                                 (case registerUser (escrowAddress s) now sellerA e1 of
                                    Inl err \<Rightarrow> Inl err
                                  | Inr e2 \<Rightarrow>
                                      Inr (tid, w\<lparr> escrow := s1, balances := bal',
                                                   allowances := alw', engine := e2 \<rparr>)))))"

definition acceptTrade :: "address \<Rightarrow> nat \<Rightarrow> bytes32 \<Rightarrow> world \<Rightarrow> error + (world \<times> payout list)" where
  "acceptTrade sender now tid w =
     (let s = escrow w; trade = trades s tid
      in if status trade \<noteq> Created then Inl InvalidStatus
         else if sender \<noteq> seller trade then Inl Unauthorized
         else if now > expiresAt trade then Inl InvalidTrade
         else Inr (w\<lparr> escrow := s\<lparr> trades := (trades s)(tid := trade\<lparr> status := SellerAccepted \<rparr>) \<rparr> \<rparr>, []))"

definition markDelivered ::
  "address \<Rightarrow> nat \<Rightarrow> bytes32 \<Rightarrow> string \<Rightarrow> world \<Rightarrow> error + (world \<times> payout list)" where
  "markDelivered sender now tid proof w =
     (let s = escrow w; trade = trades s tid
      in if status trade \<noteq> SellerAccepted then Inl InvalidStatus
         else if sender \<noteq> seller trade then Inl Unauthorized
         else Inr (w\<lparr> escrow := s\<lparr> trades := (trades s)(tid :=
                       trade\<lparr> status := Delivered, deliveredAt := now, deliveryProof := proof \<rparr>) \<rparr> \<rparr>, []))"

text \<open>
  The fund split shared by \<open>confirmDelivery\<close> and \<open>autoRelease\<close>, written out in both in the
  source: \<open>amount - platformFee\<close> (a checked subtraction) to the seller, then the fee to the
  fee recipient.
\<close>

definition releaseToSeller :: "escrow_state \<Rightarrow> Trade \<Rightarrow> ledger \<Rightarrow> error + (ledger \<times> payout list)" where
  "releaseToSeller s trade bal =
     (if amount trade < platformFee trade then Inl Panic
      else
        let sellerAmount = amount trade - platformFee trade
        in case safeTransfer (paymentToken trade) (escrowAddress s) (seller trade) sellerAmount bal of
             Inl err \<Rightarrow> Inl err
           | Inr bal1 \<Rightarrow>
              (case safeTransfer (paymentToken trade) (escrowAddress s) (feeRecipient s)
                      (platformFee trade) bal1 of
                 Inl err \<Rightarrow> Inl err
               | Inr bal2 \<Rightarrow>
                   Inr (bal2, [(paymentToken trade, seller trade, sellerAmount),
                               (paymentToken trade, feeRecipient s, platformFee trade)])))"

definition confirmDelivery ::
  "address \<Rightarrow> nat \<Rightarrow> bytes32 \<Rightarrow> nat \<Rightarrow> world \<Rightarrow> error + (world \<times> payout list)" where
  "confirmDelivery sender now tid sellerRatingV w =
     (let s = escrow w; trade = trades s tid
      in if status trade \<noteq> Delivered then Inl InvalidStatus
         else if sender \<noteq> buyer trade then Inl Unauthorized
         else if sellerRatingV < 100 \<or> sellerRatingV > 500 then Inl InvalidRating
         else
           let trade' = trade\<lparr> status := Completed, completedAt := now, buyerRating := sellerRatingV \<rparr>
           in case releaseToSeller s trade' (balances w) of
                Inl err \<Rightarrow> Inl err
              | Inr (bal', ps) \<Rightarrow>
                  Inr (w\<lparr> escrow := s\<lparr> trades := (trades s)(tid := trade') \<rparr>, balances := bal' \<rparr>, ps))"

definition rateBuyer ::
  "address \<Rightarrow> nat \<Rightarrow> (address \<Rightarrow> bool) \<Rightarrow> bytes32 \<Rightarrow> nat \<Rightarrow> world \<Rightarrow> error + (world \<times> payout list)" where
  "rateBuyer sender now rcv tid buyerRatingV w =
     (let s = escrow w; trade = trades s tid
      in if status trade \<noteq> Completed then Inl InvalidStatus
         else if sender \<noteq> seller trade then Inl Unauthorized
         else if buyerRatingV < 100 \<or> buyerRatingV > 500 then Inl InvalidRating
         else if sellerRating trade \<noteq> 0 then Inl AlreadyRated
         else
           let trade' = trade\<lparr> sellerRating := buyerRatingV \<rparr>;
               w1 = w\<lparr> escrow := s\<lparr> trades := (trades s)(tid := trade') \<rparr> \<rparr>
           in if buyerRating trade' \<noteq> 0
              then (case recordTrade (escrowAddress s) now rcv tid (seller trade') (buyer trade')
                           (amount trade') (buyerRating trade') (sellerRating trade')
                           (engine w, badge w) of
                      Inl err \<Rightarrow> Inl err
                    | Inr (e', b') \<Rightarrow> Inr (w1\<lparr> engine := e', badge := b' \<rparr>, []))
              else Inr (w1, []))"

definition cancelTrade :: "address \<Rightarrow> nat \<Rightarrow> bytes32 \<Rightarrow> world \<Rightarrow> error + (world \<times> payout list)" where
  "cancelTrade sender now tid w =
     (let s = escrow w; trade = trades s tid
      in if sender \<noteq> buyer trade then Inl Unauthorized
         else if status trade \<noteq> Created then Inl InvalidStatus
         else
           case safeTransfer (paymentToken trade) (escrowAddress s) (buyer trade) (amount trade)
                  (balances w) of
             Inl err \<Rightarrow> Inl err
           | Inr bal' \<Rightarrow>
               Inr (w\<lparr> escrow := s\<lparr> trades := (trades s)(tid := trade\<lparr> status := Cancelled \<rparr>) \<rparr>,
                       balances := bal' \<rparr>,
                    [(paymentToken trade, buyer trade, amount trade)]))"

definition claimExpiredTrade :: "address \<Rightarrow> nat \<Rightarrow> bytes32 \<Rightarrow> world \<Rightarrow> error + (world \<times> payout list)" where
  "claimExpiredTrade sender now tid w =
     (let s = escrow w; trade = trades s tid
      in if status trade \<noteq> Created \<and> status trade \<noteq> SellerAccepted then Inl InvalidStatus
         else if now \<le> expiresAt trade then Inl TradeNotExpired
         else
           case safeTransfer (paymentToken trade) (escrowAddress s) (buyer trade) (amount trade)
                  (balances w) of
             Inl err \<Rightarrow> Inl err
           | Inr bal' \<Rightarrow>
               Inr (w\<lparr> escrow := s\<lparr> trades := (trades s)(tid := trade\<lparr> status := Expired \<rparr>) \<rparr>,
                       balances := bal' \<rparr>,
                    [(paymentToken trade, buyer trade, amount trade)]))"

definition autoRelease :: "address \<Rightarrow> nat \<Rightarrow> bytes32 \<Rightarrow> world \<Rightarrow> error + (world \<times> payout list)" where
  "autoRelease sender now tid w =
     (let s = escrow w; trade = trades s tid
      in if status trade \<noteq> Delivered then Inl InvalidStatus
         else if deliveredAt trade + autoReleaseDelay s > MAX_UINT256 then Inl Panic
         else if now < deliveredAt trade + autoReleaseDelay s then Inl InvalidTrade
         else
           let trade' = trade\<lparr> status := Completed, completedAt := now, buyerRating := 500 \<rparr>
           in case releaseToSeller s trade' (balances w) of
                Inl err \<Rightarrow> Inl err
              | Inr (bal', ps) \<Rightarrow>
                  Inr (w\<lparr> escrow := s\<lparr> trades := (trades s)(tid := trade') \<rparr>, balances := bal' \<rparr>, ps))"

definition raiseDispute ::
  "address \<Rightarrow> nat \<Rightarrow> bytes32 \<Rightarrow> string \<Rightarrow> string \<Rightarrow> world \<Rightarrow> error + (world \<times> payout list)" where
  "raiseDispute sender now tid why evidence w =
     (let s = escrow w; trade = trades s tid
      in if status trade \<noteq> Delivered then Inl InvalidStatus
         else if sender \<noteq> buyer trade \<and> sender \<noteq> seller trade then Inl Unauthorized
         else if deliveredAt trade + disputeWindow s > MAX_UINT256 then Inl Panic
         else if now > deliveredAt trade + disputeWindow s then Inl DisputeWindowClosed
         else
           let d = \<lparr> d_tradeId = tid, initiator = sender, reason = why,
                     buyerEvidence = (if sender = buyer trade then evidence else []),
                     sellerEvidence = (if sender = seller trade then evidence else []),
                     winner = 0, initiatedAt = now, resolvedAt = 0, isResolved = False \<rparr>
           in Inr (w\<lparr> escrow := s\<lparr> trades := (trades s)(tid := trade\<lparr> status := Disputed \<rparr>),
                                     disputes := (disputes s)(tid := d) \<rparr> \<rparr>, []))"

definition submitEvidence ::
  "address \<Rightarrow> nat \<Rightarrow> bytes32 \<Rightarrow> string \<Rightarrow> world \<Rightarrow> error + (world \<times> payout list)" where
  "submitEvidence sender now tid evidence w =
     (let s = escrow w; trade = trades s tid; dispute = disputes s tid
      in if status trade \<noteq> Disputed then Inl InvalidStatus
         else if sender \<noteq> buyer trade \<and> sender \<noteq> seller trade then Inl Unauthorized
         else if sender = buyer trade
           then Inr (w\<lparr> escrow := s\<lparr> disputes := (disputes s)(tid := dispute\<lparr> buyerEvidence := evidence \<rparr>) \<rparr> \<rparr>, [])
           else Inr (w\<lparr> escrow := s\<lparr> disputes := (disputes s)(tid := dispute\<lparr> sellerEvidence := evidence \<rparr>) \<rparr> \<rparr>, []))"

definition resolveDispute ::
  "address \<Rightarrow> nat \<Rightarrow> bytes32 \<Rightarrow> address \<Rightarrow> world \<Rightarrow> error + (world \<times> payout list)" where
  "resolveDispute sender now tid winnerA w =
     (let s = escrow w; trade = trades s tid; dispute = disputes s tid
      in if \<not> escrowRoles s DISPUTE_RESOLVER_ROLE sender then Inl AccessControlUnauthorizedAccount
         else if status trade \<noteq> Disputed then Inl InvalidStatus
         else if winnerA \<noteq> buyer trade \<and> winnerA \<noteq> seller trade then Inl InvalidTrade
         else if winnerA = seller trade \<and> amount trade < platformFee trade then Inl Panic
         else
           let trade' = trade\<lparr> status := Resolved \<rparr>;
               dispute' = dispute\<lparr> winner := winnerA, resolvedAt := now, isResolved := True \<rparr>;
               s1 = s\<lparr> trades := (trades s)(tid := trade'), disputes := (disputes s)(tid := dispute') \<rparr>;
               winnerAmount = (if winnerA = seller trade then amount trade - platformFee trade
                               else amount trade)
           in case safeTransfer (paymentToken trade) (escrowAddress s) winnerA winnerAmount (balances w) of
                Inl err \<Rightarrow> Inl err
              | Inr bal1 \<Rightarrow>
                 (case (if winnerA = seller trade
                        then safeTransfer (paymentToken trade) (escrowAddress s) (feeRecipient s)
                               (platformFee trade) bal1
                        else Inr bal1) of
                    Inl err \<Rightarrow> Inl err
                  | Inr bal2 \<Rightarrow>
                      let loserA = (if winnerA = buyer trade then seller trade else buyer trade)
                      in (case recordDisputeResolution (escrowAddress s) tid winnerA loserA (engine w) of
                           Inl err \<Rightarrow> Inl err
                         | Inr e' \<Rightarrow>
                             Inr (w\<lparr> escrow := s1, balances := bal2, engine := e' \<rparr>,
                                  (paymentToken trade, winnerA, winnerAmount) #
                                  (if winnerA = seller trade
                                   then [(paymentToken trade, feeRecipient s, platformFee trade)]
                                   else [])))))"

subsection \<open>Administration of the escrow\<close>

definition onlyAdmin :: "address \<Rightarrow> (escrow_state \<Rightarrow> escrow_state) \<Rightarrow> world \<Rightarrow> error + (world \<times> payout list)" where
  "onlyAdmin sender f w =
     (if \<not> escrowRoles (escrow w) DEFAULT_ADMIN_ROLE sender then Inl AccessControlUnauthorizedAccount
      else Inr (w\<lparr> escrow := f (escrow w) \<rparr>, []))"

definition addSupportedToken :: "address \<Rightarrow> address \<Rightarrow> world \<Rightarrow> error + (world \<times> payout list)" where
  "addSupportedToken sender tok w =
     onlyAdmin sender (\<lambda>s. s\<lparr> supportedTokens := (supportedTokens s)(tok := True) \<rparr>) w"

definition removeSupportedToken :: "address \<Rightarrow> address \<Rightarrow> world \<Rightarrow> error + (world \<times> payout list)" where
  "removeSupportedToken sender tok w =
     onlyAdmin sender (\<lambda>s. s\<lparr> supportedTokens := (supportedTokens s)(tok := False) \<rparr>) w"

definition updateFeeRate :: "address \<Rightarrow> nat \<Rightarrow> world \<Rightarrow> error + (world \<times> payout list)" where
  "updateFeeRate sender newFeeRate w =
     (if \<not> escrowRoles (escrow w) DEFAULT_ADMIN_ROLE sender then Inl AccessControlUnauthorizedAccount
      else if newFeeRate > MAX_FEE_RATE then Inl FeeTooHigh
      else Inr (w\<lparr> escrow := (escrow w)\<lparr> platformFeeRate := newFeeRate \<rparr> \<rparr>, []))"

definition updateFeeRecipient :: "address \<Rightarrow> address \<Rightarrow> world \<Rightarrow> error + (world \<times> payout list)" where
  "updateFeeRecipient sender newRecipient w =
     onlyAdmin sender (\<lambda>s. s\<lparr> feeRecipient := newRecipient \<rparr>) w"

definition updateDisputeWindow :: "address \<Rightarrow> nat \<Rightarrow> world \<Rightarrow> error + (world \<times> payout list)" where
  "updateDisputeWindow sender newWindow w =
     onlyAdmin sender (\<lambda>s. s\<lparr> disputeWindow := newWindow \<rparr>) w"

definition updateAutoReleaseDelay :: "address \<Rightarrow> nat \<Rightarrow> world \<Rightarrow> error + (world \<times> payout list)" where
  "updateAutoReleaseDelay sender newDelay w =
     onlyAdmin sender (\<lambda>s. s\<lparr> autoReleaseDelay := newDelay \<rparr>) w"

definition pause :: "address \<Rightarrow> world \<Rightarrow> error + (world \<times> payout list)" where
  "pause sender w =
     (if \<not> escrowRoles (escrow w) PAUSER_ROLE sender then Inl AccessControlUnauthorizedAccount
      else if paused (escrow w) then Inl EnforcedPause
      else Inr (w\<lparr> escrow := (escrow w)\<lparr> paused := True \<rparr> \<rparr>, []))"

definition unpause :: "address \<Rightarrow> world \<Rightarrow> error + (world \<times> payout list)" where
  "unpause sender w =
     (if \<not> escrowRoles (escrow w) PAUSER_ROLE sender then Inl AccessControlUnauthorizedAccount
      else if \<not> paused (escrow w) then Inl ExpectedPause
      else Inr (w\<lparr> escrow := (escrow w)\<lparr> paused := False \<rparr> \<rparr>, []))"

definition escrow_setRole :: "address \<Rightarrow> role \<Rightarrow> address \<Rightarrow> bool \<Rightarrow> world \<Rightarrow> error + (world \<times> payout list)" where
  "escrow_setRole sender r account v w =
     onlyAdmin sender (\<lambda>s. s\<lparr> escrowRoles := (escrowRoles s)(r := (escrowRoles s r)(account := v)) \<rparr>) w"

text \<open>\<open>renounceRole\<close> of AccessControl: an account gives up a role of its own.\<close>

definition escrow_renounceRole :: "address \<Rightarrow> role \<Rightarrow> world \<Rightarrow> error + (world \<times> payout list)" where
  "escrow_renounceRole sender r w =
     Inr (w\<lparr> escrow := (escrow w)\<lparr> escrowRoles := (escrowRoles (escrow w))(r := (escrowRoles (escrow w) r)(sender := False)) \<rparr> \<rparr>, [])"

subsection \<open>Sequences of calls to the escrow\<close>

text \<open>
  One transaction is a sender, a block timestamp and a call. \<open>Environment\<close> stands for
  whatever other accounts and contracts do between two calls of the escrow: the badge
  contract, the reputation engine and the token ledger may be in any state afterwards; the
  storage of the escrow is its own. A transaction that reverts changes nothing. The run
  keeps a log of events: \<open>Opened tid\<close> when \<open>createTrade\<close> stores a trade under \<open>tid\<close>, and
  \<open>Paid tid fr (token, recipient, amount)\<close> for every transfer out of the escrow, with the
  trade of the call that made it and the fee recipient \<open>fr\<close> of the escrow at that call.
\<close>

datatype escrow_call =
    CreateTrade address address nat string nat
  | AcceptTrade bytes32
  | MarkDelivered bytes32 string
  | ConfirmDelivery bytes32 nat
  | RateBuyer bytes32 nat
  | CancelTrade bytes32
  | ClaimExpiredTrade bytes32
  | AutoRelease bytes32
  | RaiseDispute bytes32 string string
  | SubmitEvidence bytes32 string
  | ResolveDispute bytes32 address
  | AddSupportedToken address
  | RemoveSupportedToken address
  | UpdateFeeRate nat
  | UpdateFeeRecipient address
  | UpdateDisputeWindow nat
  | UpdateAutoReleaseDelay nat
  | Pause
  | Unpause
  | GrantRole role address
  | RevokeRole role address
  | RenounceRole role
  | Environment badge_state engine_state ledger approvals

datatype event = Opened bytes32 | Paid bytes32 address payout

definition tagged ::
  "bytes32 \<Rightarrow> address \<Rightarrow> error + (world \<times> payout list) \<Rightarrow> error + (world \<times> event list)" where
  "tagged tid fr r = (case r of Inl err \<Rightarrow> Inl err | Inr (w, ps) \<Rightarrow> Inr (w, map (Paid tid fr) ps))"

fun escrow_step ::
  "(address \<Rightarrow> address \<Rightarrow> nat \<Rightarrow> nat \<Rightarrow> bytes32) \<Rightarrow> (address \<Rightarrow> bool) \<Rightarrow> address \<times> nat \<times> escrow_call
     \<Rightarrow> world \<Rightarrow> error + (world \<times> event list)" where
  "escrow_step hash rcv (sender, now, CreateTrade sellerA tok amt descr dur) w =
     (case createTrade hash sender now sellerA tok amt descr dur w of
        Inl err \<Rightarrow> Inl err | Inr (tid, w') \<Rightarrow> Inr (w', [Opened tid]))"
| "escrow_step hash rcv (sender, now, AcceptTrade tid) w =
     tagged tid (feeRecipient (escrow w)) (acceptTrade sender now tid w)"
| "escrow_step hash rcv (sender, now, MarkDelivered tid proof) w =
     tagged tid (feeRecipient (escrow w)) (markDelivered sender now tid proof w)"
| "escrow_step hash rcv (sender, now, ConfirmDelivery tid r) w =
     tagged tid (feeRecipient (escrow w)) (confirmDelivery sender now tid r w)"
| "escrow_step hash rcv (sender, now, RateBuyer tid r) w =
     tagged tid (feeRecipient (escrow w)) (rateBuyer sender now rcv tid r w)"
| "escrow_step hash rcv (sender, now, CancelTrade tid) w =
     tagged tid (feeRecipient (escrow w)) (cancelTrade sender now tid w)"
| "escrow_step hash rcv (sender, now, ClaimExpiredTrade tid) w =
     tagged tid (feeRecipient (escrow w)) (claimExpiredTrade sender now tid w)"
| "escrow_step hash rcv (sender, now, AutoRelease tid) w =
     tagged tid (feeRecipient (escrow w)) (autoRelease sender now tid w)"
| "escrow_step hash rcv (sender, now, RaiseDispute tid why ev) w =
     tagged tid (feeRecipient (escrow w)) (raiseDispute sender now tid why ev w)"
| "escrow_step hash rcv (sender, now, SubmitEvidence tid ev) w =
     tagged tid (feeRecipient (escrow w)) (submitEvidence sender now tid ev w)"
| "escrow_step hash rcv (sender, now, ResolveDispute tid wi) w =
     tagged tid (feeRecipient (escrow w)) (resolveDispute sender now tid wi w)"
| "escrow_step hash rcv (sender, now, AddSupportedToken tok) w =
     tagged 0 (feeRecipient (escrow w)) (addSupportedToken sender tok w)"
| "escrow_step hash rcv (sender, now, RemoveSupportedToken tok) w =
     tagged 0 (feeRecipient (escrow w)) (removeSupportedToken sender tok w)"
| "escrow_step hash rcv (sender, now, UpdateFeeRate r) w =
     tagged 0 (feeRecipient (escrow w)) (updateFeeRate sender r w)"
| "escrow_step hash rcv (sender, now, UpdateFeeRecipient a) w =
     tagged 0 (feeRecipient (escrow w)) (updateFeeRecipient sender a w)"
| "escrow_step hash rcv (sender, now, UpdateDisputeWindow n) w =
     tagged 0 (feeRecipient (escrow w)) (updateDisputeWindow sender n w)"
| "escrow_step hash rcv (sender, now, UpdateAutoReleaseDelay n) w =
     tagged 0 (feeRecipient (escrow w)) (updateAutoReleaseDelay sender n w)"
| "escrow_step hash rcv (sender, now, Pause) w = tagged 0 (feeRecipient (escrow w)) (pause sender w)"
| "escrow_step hash rcv (sender, now, Unpause) w = tagged 0 (feeRecipient (escrow w)) (unpause sender w)"
| "escrow_step hash rcv (sender, now, GrantRole r a) w =
     tagged 0 (feeRecipient (escrow w)) (escrow_setRole sender r a True w)"
| "escrow_step hash rcv (sender, now, RevokeRole r a) w =
     tagged 0 (feeRecipient (escrow w)) (escrow_setRole sender r a False w)"
| "escrow_step hash rcv (sender, now, RenounceRole r) w =
     tagged 0 (feeRecipient (escrow w)) (escrow_renounceRole sender r w)"
| "escrow_step hash rcv (sender, now, Environment b e bal alw) w =
     Inr (w\<lparr> badge := b, engine := e, balances := bal, allowances := alw \<rparr>, [])"

fun escrow_run ::
  "(address \<Rightarrow> address \<Rightarrow> nat \<Rightarrow> nat \<Rightarrow> bytes32) \<Rightarrow> (address \<Rightarrow> bool) \<Rightarrow> (address \<times> nat \<times> escrow_call) list
     \<Rightarrow> world \<times> event list \<Rightarrow> world \<times> event list" where
  "escrow_run hash rcv [] wl = wl"
| "escrow_run hash rcv (c # cs) wl =
     (case escrow_step hash rcv c (fst wl) of
        Inl err \<Rightarrow> escrow_run hash rcv cs wl
      | Inr (w', ps) \<Rightarrow> escrow_run hash rcv cs (w', snd wl @ ps))"

text \<open>
  The transfers a log holds for the trade stored under \<open>tid\<close>: those made for \<open>tid\<close> since it
  was last opened, each with the fee recipient of its time, in order; and the amount they
  move in total. (Were \<open>keccak256\<close> to give a new trade the identifier of an older one,
  \<open>createTrade\<close> would overwrite the older trade, and the transfers of the older trade are
  not those of the new one.)
\<close>

fun replay :: "bytes32 \<Rightarrow> event list \<Rightarrow> (address \<times> payout) list \<Rightarrow> (address \<times> payout) list" where
  "replay tid [] acc = acc"
| "replay tid (Opened k # l) acc = replay tid l (if k = tid then [] else acc)"
| "replay tid (Paid k fr p # l) acc = replay tid l (if k = tid then acc @ [(fr, p)] else acc)"

definition payouts_of :: "bytes32 \<Rightarrow> event list \<Rightarrow> (address \<times> payout) list" where
  "payouts_of tid l = replay tid l []"





section \<open>VeritasCrossChainBridge\<close>

datatype MessageType = TokenTransfer | ReputationSync | BadgeRecognition

record ChainConfig =
  chainSelector :: nat
  bridgeContract :: address
  cfg_usdcToken :: address
  cfg_isActive :: bool

text \<open>
  \<open>msg_data\<close> is the \<open>bytes\<close> field: the list of the 32-byte words of \<open>abi.encode\<close>, empty
  for \<open>""\<close>.
\<close>

record CrossChainMessage =
  messageType :: MessageType
  msg_sender :: address
  msg_recipient :: address
  msg_amount :: nat
  msg_data :: "nat list"

text \<open>
  The outbound CCIP message (its token list is always empty) and the inbound one. The
  \<open>bytes\<close> fields of the inbound message hold what \<open>abi.decode\<close> makes of them, \<open>None\<close> when
  they do not decode.
\<close>

record EVM2AnyMessage =
  receiver :: address
  evm_data :: CrossChainMessage
  gasLimit :: nat
  feeToken :: address

record Any2EVMMessage =
  messageId :: bytes32
  sourceChainSelector :: nat
  any_sender :: "address option"
  any_data :: "CrossChainMessage option"

text \<open>
  The state of the bridge that reputation sync and the receiver use; token bridging and the
  liquidity pool are not modelled.
\<close>

record bridge_state =
  bridgeAddress :: address
  linkToken :: address
  usdcToken :: address
  currentChainSelector :: nat
  chainConfigs :: "nat \<Rightarrow> ChainConfig"
  supportedChains :: "nat list"
  processedMessages :: "bytes32 \<Rightarrow> bool"
  bridgeRoles :: "role \<Rightarrow> address \<Rightarrow> bool"

record bridge_world =
  br :: bridge_state
  br_engine :: engine_state
  br_badge :: badge_state
  br_balances :: ledger

definition bridge_init :: "address \<Rightarrow> address \<Rightarrow> address \<Rightarrow> address \<Rightarrow> nat \<Rightarrow> bridge_state" where
  "bridge_init deployer self link usdc selector =
     \<lparr> bridgeAddress = self,
       linkToken = link,
       usdcToken = usdc,
       currentChainSelector = selector,
       chainConfigs = (\<lambda>_. \<lparr> chainSelector = 0, bridgeContract = 0, cfg_usdcToken = 0,
                               cfg_isActive = False \<rparr>),
       supportedChains = [],
       processedMessages = (\<lambda>_. False),
       bridgeRoles = (\<lambda>r a. a = deployer \<and> r \<in> {DEFAULT_ADMIN_ROLE, OPERATOR_ROLE}) \<rparr>"

text \<open>The search loop of \<open>configureChain\<close>.\<close>

fun chain_exists :: "nat \<Rightarrow> nat list \<Rightarrow> bool" where
  "chain_exists sel [] = False"
| "chain_exists sel (c # cs) = (if c = sel then True else chain_exists sel cs)"

definition configureChain ::
  "address \<Rightarrow> nat \<Rightarrow> address \<Rightarrow> address \<Rightarrow> bridge_state \<Rightarrow> error + bridge_state" where
  "configureChain sender sel peer chainUsdc s =
     (if \<not> bridgeRoles s DEFAULT_ADMIN_ROLE sender then Inl AccessControlUnauthorizedAccount
      else
        let s1 = s\<lparr> chainConfigs := (chainConfigs s)(sel :=
                      \<lparr> chainSelector = sel, bridgeContract = peer, cfg_usdcToken = chainUsdc,
                        cfg_isActive = True \<rparr>) \<rparr>
        in if \<not> chain_exists sel (supportedChains s1)
           then Inr (s1\<lparr> supportedChains := supportedChains s1 @ [sel] \<rparr>)
           else Inr s1)"

text \<open>
  \<open>syncReputation\<close>. The CCIP router is external: \<open>router dest m\<close> is the message id that
  \<open>getFee\<close>, the LINK approval and \<open>ccipSend\<close> end in, or their revert. The function returns
  the message id together with the destination and the message handed to the router; it
  writes no storage of the bridge.
\<close>

definition syncReputation ::
  "(nat \<Rightarrow> EVM2AnyMessage \<Rightarrow> error + bytes32) \<Rightarrow> address \<Rightarrow> nat \<Rightarrow> bridge_world
     \<Rightarrow> error + (bytes32 \<times> nat \<times> EVM2AnyMessage)" where
  "syncReputation router sender dest bw =
     (let config = chainConfigs (br bw) dest
      in if \<not> cfg_isActive config then Inl UnsupportedChain
         else
           case getReputation (br_engine bw) (br_badge bw) sender of
             (totalTradesV, successfulTradesV, averageRating, rest) \<Rightarrow>
               if averageRating * successfulTradesV > MAX_UINT256 then Inl Panic
               else
                 let message = \<lparr> messageType = ReputationSync, msg_sender = sender,
                                 msg_recipient = sender, msg_amount = 0,
                                 msg_data = [successfulTradesV, averageRating * successfulTradesV,
                                             successfulTradesV] \<rparr>;
                     ccipMessage = \<lparr> receiver = bridgeContract config, evm_data = message,
                                     gasLimit = 500000, feeToken = linkToken (br bw) \<rparr>
                 in (case router dest ccipMessage of
                       Inl err \<Rightarrow> Inl err
                     | Inr mid \<Rightarrow> Inr (mid, dest, ccipMessage)))"

definition handleTokenTransfer :: "bytes32 \<Rightarrow> CrossChainMessage \<Rightarrow> bridge_world \<Rightarrow> error + bridge_world" where
  "handleTokenTransfer mid m bw =
     (let balance = br_balances bw (usdcToken (br bw)) (bridgeAddress (br bw))
      in if balance < msg_amount m then Inl InsufficientLiquidity
         else
           case safeTransfer (usdcToken (br bw)) (bridgeAddress (br bw)) (msg_recipient m)
                  (msg_amount m) (br_balances bw) of
             Inl err \<Rightarrow> Inl err
           | Inr bal' \<Rightarrow> Inr (bw\<lparr> br_balances := bal' \<rparr>))"

text \<open>
  \<open>syncHash messageId sourceChain sender\<close> is \<open>keccak256(abi.encodePacked(...))\<close>.
  \<open>abi.decode\<close> of three words reverts on shorter data and ignores what follows them.
\<close>

definition handleReputationSync ::
  "(bytes32 \<Rightarrow> nat \<Rightarrow> address \<Rightarrow> bytes32) \<Rightarrow> nat \<Rightarrow> (address \<Rightarrow> bool) \<Rightarrow> bytes32 \<Rightarrow> CrossChainMessage
     \<Rightarrow> nat \<Rightarrow> bridge_world \<Rightarrow> error + bridge_world" where
  "handleReputationSync syncHash now rcv mid m sourceChain bw =
     (case msg_data m of
        additionalTrades # additionalRatingPoints # additionalRatingCount # extra \<Rightarrow>
          let syncId = syncHash mid sourceChain (msg_sender m)
          in (case syncCrossChainReputation (bridgeAddress (br bw)) now rcv (msg_sender m) sourceChain
                     additionalTrades additionalRatingPoints additionalRatingCount syncId
                     (br_engine bw, br_badge bw) of
                Inl err \<Rightarrow> Inl err
              | Inr (e', b') \<Rightarrow> Inr (bw\<lparr> br_engine := e', br_badge := b' \<rparr>))
      | _ \<Rightarrow> Inl AbiDecodeError)"

definition ccipReceive ::
  "(bytes32 \<Rightarrow> nat \<Rightarrow> address \<Rightarrow> bytes32) \<Rightarrow> nat \<Rightarrow> (address \<Rightarrow> bool) \<Rightarrow> Any2EVMMessage
     \<Rightarrow> bridge_world \<Rightarrow> error + bridge_world" where
  "ccipReceive syncHash now rcv message bw =
     (let mid = messageId message
      in if processedMessages (br bw) mid then Inl MessageAlreadyProcessed
         else
           let bw1 = bw\<lparr> br := (br bw)\<lparr> processedMessages := (processedMessages (br bw))(mid := True) \<rparr> \<rparr>;
               sourceChain = sourceChainSelector message
           in case any_sender message of
                None \<Rightarrow> Inl AbiDecodeError
              | Some sourceAddress \<Rightarrow>
                  if sourceAddress \<noteq> bridgeContract (chainConfigs (br bw1) sourceChain)
                  then Inl InvalidMessageSource
                  else
                    (case any_data message of
                       None \<Rightarrow> Inl AbiDecodeError
                     | Some crossChainMsg \<Rightarrow>
                         if messageType crossChainMsg = TokenTransfer
                         then handleTokenTransfer mid crossChainMsg bw1
                         else if messageType crossChainMsg = ReputationSync
                         then handleReputationSync syncHash now rcv mid crossChainMsg sourceChain bw1
                         else Inr bw1))"

text \<open>A delivery that reverts leaves the state as it was.\<close>

definition deliver ::
  "(bytes32 \<Rightarrow> nat \<Rightarrow> address \<Rightarrow> bytes32) \<Rightarrow> nat \<Rightarrow> (address \<Rightarrow> bool) \<Rightarrow> Any2EVMMessage
     \<Rightarrow> bridge_world \<Rightarrow> bridge_world" where
  "deliver syncHash now rcv message bw =
     (case ccipReceive syncHash now rcv message bw of Inl err \<Rightarrow> bw | Inr bw' \<Rightarrow> bw')"

definition deactivateChain :: "address \<Rightarrow> nat \<Rightarrow> bridge_state \<Rightarrow> error + bridge_state" where
  "deactivateChain sender sel s =
     (if \<not> bridgeRoles s DEFAULT_ADMIN_ROLE sender then Inl AccessControlUnauthorizedAccount
      else Inr (s\<lparr> chainConfigs := (chainConfigs s)(sel := (chainConfigs s sel)\<lparr> cfg_isActive := False \<rparr>) \<rparr>))"

text \<open>
  A sequence of events at the bridge: deliveries of inbound messages, configuration by the
  admin, \<open>BridgeOther\<close> for the other entry points of the bridge (\<open>bridgeTokens\<close>,
  \<open>syncReputation\<close>, \<open>addLiquidity\<close>, \<open>removeLiquidity\<close>, the setters and the withdrawals),
  which may leave any storage of the bridge but \<open>processedMessages\<close>, assigned in
  \<open>_ccipReceive\<close> only, and \<open>BridgeEnvironment\<close> for whatever else happens to the reputation
  engine, the badge contract and the token ledger in between. What reverts changes nothing.
\<close>

datatype bridge_call =
    Deliver nat Any2EVMMessage
  | ConfigureChain address nat address address
  | DeactivateChain address nat
  | BridgeOther bridge_state
  | BridgeEnvironment engine_state badge_state ledger

fun bridge_step ::
  "(bytes32 \<Rightarrow> nat \<Rightarrow> address \<Rightarrow> bytes32) \<Rightarrow> (address \<Rightarrow> bool) \<Rightarrow> bridge_call \<Rightarrow> bridge_world \<Rightarrow> bridge_world" where
  "bridge_step syncHash rcv (Deliver now message) bw = deliver syncHash now rcv message bw"
| "bridge_step syncHash rcv (ConfigureChain sender sel peer chainUsdc) bw =
     (case configureChain sender sel peer chainUsdc (br bw) of
        Inl err \<Rightarrow> bw | Inr s \<Rightarrow> bw\<lparr> br := s \<rparr>)"
| "bridge_step syncHash rcv (DeactivateChain sender sel) bw =
     (case deactivateChain sender sel (br bw) of Inl err \<Rightarrow> bw | Inr s \<Rightarrow> bw\<lparr> br := s \<rparr>)"
| "bridge_step syncHash rcv (BridgeOther s) bw =
     bw\<lparr> br := s\<lparr> processedMessages := processedMessages (br bw) \<rparr> \<rparr>"
| "bridge_step syncHash rcv (BridgeEnvironment e b bal) bw =
     bw\<lparr> br_engine := e, br_badge := b, br_balances := bal \<rparr>"

fun bridge_run ::
  "(bytes32 \<Rightarrow> nat \<Rightarrow> address \<Rightarrow> bytes32) \<Rightarrow> (address \<Rightarrow> bool) \<Rightarrow> bridge_call list \<Rightarrow> bridge_world \<Rightarrow> bridge_world" where
  "bridge_run syncHash rcv [] bw = bw"
| "bridge_run syncHash rcv (c # cs) bw = bridge_run syncHash rcv cs (bridge_step syncHash rcv c bw)"

section \<open>Predicates of the properties\<close>

text \<open>
  A raise of the highest tier of user \<open>u\<close> between two states of the badge contract that the
  thresholds of the engine \<open>e\<close> justify: either the pointer did not move, or it moved to a
  strictly higher tier whose trade-count and rating thresholds the user's successful-trade
  count and average rating in \<open>e\<close> both meet.
\<close>

definition raised_ok :: "engine_state \<Rightarrow> badge_state \<Rightarrow> badge_state \<Rightarrow> address \<Rightarrow> bool" where
  "raised_ok e b b' u \<longleftrightarrow>
     userHighestTier b' u = userHighestTier b u
     \<or> (meetsThreshold e (userHighestTier b' u) (successfulTrades (userReputations e u))
           (calculateAverageRating e u)
        \<and> tier_rank (userHighestTier b' u) > tier_rank (userHighestTier b u))"

text \<open>Every completed trade carries a buyer's rating between 100 and 500.\<close>

definition ratedOnCompletion :: "world \<Rightarrow> bool" where
  "ratedOnCompletion w \<longleftrightarrow>
     (\<forall>tid. status (trades (escrow w) tid) = Completed \<longrightarrow>
        100 \<le> buyerRating (trades (escrow w) tid) \<and> buyerRating (trades (escrow w) tid) \<le> 500)"



section \<open>The deployment of the test suite\<close>

text \<open>
  The accounts and contracts of \<open>Veritas.test.ts\<close> and \<open>deploy.ts\<close>: owner \<open>1\<close>, seller \<open>2\<close>,
  buyer \<open>3\<close>, dispute resolver \<open>4\<close>; the token at \<open>10\<close>, the badge contract at \<open>11\<close>, the
  reputation engine at \<open>12\<close>, the escrow at \<open>13\<close>. The owner deploys the three contracts,
  grants \<open>MINTER_ROLE\<close> on the badge contract to the engine, \<open>ESCROW_ROLE\<close> on the engine to the
  escrow and \<open>DISPUTE_RESOLVER_ROLE\<close> on the escrow to the dispute resolver. The buyer holds
  10000 tokens of six decimals and has approved the escrow for them.
\<close>

definition eoa :: "address \<Rightarrow> bool" where
  "eoa a = True"

definition demo_badge :: badge_state where
  "demo_badge = (case badge_grantRole 1 MINTER_ROLE 12 (badge_init 1) of Inr b \<Rightarrow> b | Inl err \<Rightarrow> badge_init 1)"

definition demo_engine :: engine_state where
  "demo_engine = (case engine_grantRole 1 ESCROW_ROLE 13 (engine_init 1 12 31337) of
                    Inr e \<Rightarrow> e | Inl err \<Rightarrow> engine_init 1 12 31337)"

definition demo_ledger :: ledger where
  "demo_ledger tok holder = (if tok = 10 \<and> holder = 3 then 10000000000 else 0)"

definition demo_approvals :: approvals where
  "demo_approvals tok holder spender = (if tok = 10 \<and> holder = 3 \<and> spender = 13 then 10000000000 else 0)"

definition demo_world0 :: world where
  "demo_world0 =
     \<lparr> badge = demo_badge, engine = demo_engine, escrow = escrow_init 1 13 1 [10],
       balances = demo_ledger, allowances = demo_approvals \<rparr>"

text \<open>A hash without collisions.\<close>

definition demo_hash :: "address \<Rightarrow> address \<Rightarrow> nat \<Rightarrow> nat \<Rightarrow> bytes32" where
  "demo_hash b s t n = prod_encode (b, prod_encode (s, prod_encode (t, n)))"

definition demo_setup :: "(address \<times> nat \<times> escrow_call) list" where
  "demo_setup = [(1, 900, GrantRole DISPUTE_RESOLVER_ROLE 4)]"


text \<open>
  The same engine after its admin has also granted \<open>DISPUTE_RESOLVER_ROLE\<close> to the escrow,
  which neither the test suite nor the deployment script does.
\<close>

definition demo_engine_resolver :: engine_state where
  "demo_engine_resolver = (case engine_grantRole 1 DISPUTE_RESOLVER_ROLE 13 demo_engine of
                             Inr e \<Rightarrow> e | Inl err \<Rightarrow> demo_engine)"

text \<open>
  The flows of the test suite: the buyer creates a trade of 100 tokens (\<open>100000000\<close> smallest
  units) with the seller, the seller accepts and marks it delivered; then either the buyer
  confirms with five stars, or the buyer raises a dispute.
\<close>

definition demo_tid :: bytes32 where
  "demo_tid = demo_hash 3 2 1000 0"

definition demo_flow :: "(address \<times> nat \<times> escrow_call) list" where
  "demo_flow =
     [(3, 1000, CreateTrade 2 10 100000000 ''Test item'' 0),
      (2, 1100, AcceptTrade demo_tid),
      (2, 1200, MarkDelivered demo_tid ''ipfs://proof'')]"


definition demo_confirm :: "(address \<times> nat \<times> escrow_call) list" where
  "demo_confirm = demo_setup @ demo_flow @ [(3, 1300, ConfirmDelivery demo_tid 500)]"

definition demo_completed :: world where
  "demo_completed = fst (escrow_run demo_hash eoa demo_confirm (demo_world0, []))"

definition demo_disputed :: world where
  "demo_disputed =
     fst (escrow_run demo_hash eoa
            (demo_setup @ demo_flow
               @ [(3, 1300, RaiseDispute demo_tid ''Item not as described'' ''ipfs://evidence'')])
            (demo_world0, []))"


text \<open>
  The engine after the escrow has recorded two trades of seller \<open>2\<close> with buyer \<open>3\<close>, the
  seller rated 450 and 455, and after nine trades with the seller rated 400.
\<close>

definition demo_two_trades :: "engine_state \<times> badge_state" where
  "demo_two_trades =
     rep_run 11 eoa
       [(13, 1000, RecordTrade 1 2 3 100000000 450 500),
        (13, 2000, RecordTrade 2 2 3 100000000 455 500)]
       (demo_engine, demo_badge)"

definition demo_nine_trades :: "engine_state \<times> badge_state" where
  "demo_nine_trades =
     rep_run 11 eoa
       [(13, 1000, RecordTrade 1 2 3 100000000 400 500),
        (13, 1001, RecordTrade 2 2 3 100000000 400 500),
        (13, 1002, RecordTrade 3 2 3 100000000 400 500),
        (13, 1003, RecordTrade 4 2 3 100000000 400 500),
        (13, 1004, RecordTrade 5 2 3 100000000 400 500),
        (13, 1005, RecordTrade 6 2 3 100000000 400 500),
        (13, 1006, RecordTrade 7 2 3 100000000 400 500),
        (13, 1007, RecordTrade 8 2 3 100000000 400 500),
        (13, 1008, RecordTrade 9 2 3 100000000 400 500)]
       (demo_engine, demo_badge)"

text \<open>
  A bridge at \<open>14\<close> on chain \<open>31337\<close>, LINK at \<open>20\<close>, with chain \<open>5\<close> configured and its peer
  bridge at \<open>15\<close>; the engine has granted it \<open>CROSS_CHAIN_ROLE\<close>. The router accepts every
  message and numbers it \<open>77\<close>.
\<close>

definition demo_bridge :: bridge_state where
  "demo_bridge = (case configureChain 1 5 15 10 (bridge_init 1 14 20 10 31337) of
                    Inr s \<Rightarrow> s | Inl err \<Rightarrow> bridge_init 1 14 20 10 31337)"

definition demo_router :: "nat \<Rightarrow> EVM2AnyMessage \<Rightarrow> error + bytes32" where
  "demo_router dest m = Inr 77"

definition demo_sync_hash :: "bytes32 \<Rightarrow> nat \<Rightarrow> address \<Rightarrow> bytes32" where
  "demo_sync_hash mid src sender = prod_encode (mid, prod_encode (src, sender))"

definition demo_bridge_world :: bridge_world where
  "demo_bridge_world =
     \<lparr> br = demo_bridge,
       br_engine = (case engine_grantRole 1 CROSS_CHAIN_ROLE 14 (fst demo_two_trades) of
                      Inr e \<Rightarrow> e | Inl err \<Rightarrow> fst demo_two_trades),
       br_badge = snd demo_two_trades,
       br_balances = demo_ledger \<rparr>"

definition demo_sync_message :: Any2EVMMessage where
  "demo_sync_message =
     \<lparr> messageId = 77, sourceChainSelector = 5, any_sender = Some 15,
       any_data = Some \<lparr> messageType = ReputationSync, msg_sender = 2, msg_recipient = 2,
                         msg_amount = 0, msg_data = [5, 2250, 5] \<rparr> \<rparr>"

text \<open>
  What happens between a first application and its replay: a sync of another user under
  another \<open>syncId\<close>, and the delivery of another message.
\<close>

definition demo_between :: "(address \<times> nat \<times> rep_call) list" where
  "demo_between = [(14, 3500, SyncCrossChainReputation 3 5 1 500 1 8)]"

definition demo_other_message :: Any2EVMMessage where
  "demo_other_message =
     \<lparr> messageId = 78, sourceChainSelector = 5, any_sender = Some 15,
       any_data = Some \<lparr> messageType = ReputationSync, msg_sender = 3, msg_recipient = 3,
                         msg_amount = 0, msg_data = [1, 500, 1] \<rparr> \<rparr>"

section \<open>Properties of the reputation engine\<close>

text \<open>
  C10. \<open>recordDisputeResolution\<close>, called by a holder of the dispute-resolver role, adds one
  to the winner's \<open>disputesWon\<close> and one to the loser's \<open>disputesLost\<close> and changes nothing
  else: no other field of any user, no other part of the engine. It registers nobody, so an
  unregistered party keeps \<open>isActive = False\<close> and \<open>joinTimestamp = 0\<close> while its counter
  becomes nonzero. (The counters are below the largest \<open>uint256\<close>, as the checked increment
  requires.)
\<close>

theorem recordDisputeResolution_frame:
  assumes "engineRoles e DISPUTE_RESOLVER_ROLE sender"
    and "disputesWon (userReputations e winnerA) < MAX_UINT256"
    and "disputesLost (userReputations e loserA) < MAX_UINT256"
  shows "recordDisputeResolution sender tid winnerA loserA e =
     Inr (e\<lparr> userReputations := (\<lambda>u. (userReputations e u)\<lparr>
            disputesWon := disputesWon (userReputations e u) + (if u = winnerA then 1 else 0),
            disputesLost := disputesLost (userReputations e u) + (if u = loserA then 1 else 0) \<rparr>) \<rparr>)"
  using assms
  by (auto simp: recordDisputeResolution_def Let_def fun_eq_iff intro!: arg_cong[where f=Inr])

theorem recordDisputeResolution_frame_witness:
  "engineRoles demo_engine_resolver DISPUTE_RESOLVER_ROLE 13
   \<and> disputesWon (userReputations demo_engine_resolver 7) < MAX_UINT256
   \<and> disputesLost (userReputations demo_engine_resolver 8) < MAX_UINT256
   \<and> \<not> isActive (userReputations demo_engine_resolver 7)
   \<and> \<not> isActive (userReputations demo_engine_resolver 8)
   \<and> (case recordDisputeResolution 13 0 7 8 demo_engine_resolver of
        Inl err \<Rightarrow> False
      | Inr e' \<Rightarrow> disputesWon (userReputations e' 7) = 1 \<and> disputesLost (userReputations e' 8) = 1
          \<and> disputesLost (userReputations e' 7) = 0 \<and> disputesWon (userReputations e' 8) = 0
          \<and> \<not> isActive (userReputations e' 7) \<and> joinTimestamp (userReputations e' 7) = 0
          \<and> \<not> isActive (userReputations e' 8) \<and> joinTimestamp (userReputations e' 8) = 0)"
  using recordDisputeResolution_frame [of demo_engine_resolver 13 7 8 0]
  by (simp add: demo_engine_resolver_def demo_engine_def engine_grantRole_def engine_init_def
        zeroReputation_def MAX_UINT256_def)

text \<open>
  C6, as the code has it. \<open>recordTrade\<close>, \<open>recordDisputeResolution\<close> and
  \<open>syncCrossChainReputation\<close> revert with the access-control error for every caller that
  does not hold \<open>ESCROW_ROLE\<close>, \<open>DISPUTE_RESOLVER_ROLE\<close> and \<open>CROSS_CHAIN_ROLE\<close> respectively
  (so they succeed only for holders, and a revert changes no state). \<open>registerUser\<close> has no
  gate: it succeeds for every caller and initialises the user if not yet active.
\<close>

theorem reputation_role_gates:
  "(\<not> engineRoles (fst eb) ESCROW_ROLE sender \<longrightarrow>
      recordTrade sender now rcv tid s b amt rs rb eb = Inl AccessControlUnauthorizedAccount)
   \<and> (\<not> engineRoles e DISPUTE_RESOLVER_ROLE sender \<longrightarrow>
      recordDisputeResolution sender tid wi lo e = Inl AccessControlUnauthorizedAccount)
   \<and> (\<not> engineRoles (fst eb) CROSS_CHAIN_ROLE sender \<longrightarrow>
      syncCrossChainReputation sender now rcv user src tr pts cnt sid eb
        = Inl AccessControlUnauthorizedAccount)
   \<and> registerUser sender now user e = Inr (ensureRegistered now user e)"
  by (simp add: recordTrade_def recordDisputeResolution_def syncCrossChainReputation_def
        registerUser_def ensureRegistered_def Let_def)

theorem reputation_role_gates_witness:
  "\<not> engineRoles demo_engine ESCROW_ROLE 99
   \<and> recordTrade 99 1000 eoa 0 2 3 100000000 450 500 (demo_engine, demo_badge)
       = Inl AccessControlUnauthorizedAccount
   \<and> \<not> engineRoles demo_engine DISPUTE_RESOLVER_ROLE 99
   \<and> recordDisputeResolution 99 0 3 2 demo_engine = Inl AccessControlUnauthorizedAccount
   \<and> \<not> engineRoles demo_engine CROSS_CHAIN_ROLE 99
   \<and> syncCrossChainReputation 99 1000 eoa 2 5 5 2250 5 0 (demo_engine, demo_badge)
       = Inl AccessControlUnauthorizedAccount
   \<and> registerUser 99 1000 2 demo_engine = Inr (ensureRegistered 1000 2 demo_engine)"
  using reputation_role_gates [where eb = "(demo_engine, demo_badge)" and sender = 99
          and now = 1000 and rcv = eoa and tid = 0 and s = 2 and b = 3 and amt = 100000000
          and rs = 450 and rb = 500 and e = demo_engine and wi = 3 and lo = 2 and user = 2
          and src = 5 and tr = 5 and pts = 2250 and cnt = 5 and sid = 0]
  by (simp add: demo_engine_def engine_grantRole_def engine_init_def)

text \<open>
  C6 as stated fails for \<open>registerUser\<close>: account \<open>99\<close> holds no role on the engine, yet its
  call succeeds and activates user \<open>2\<close>.
\<close>

theorem registerUser_ungated_counterexample:
  "\<not> engineRoles demo_engine DEFAULT_ADMIN_ROLE 99
   \<and> \<not> engineRoles demo_engine ESCROW_ROLE 99
   \<and> \<not> engineRoles demo_engine DISPUTE_RESOLVER_ROLE 99
   \<and> \<not> engineRoles demo_engine CROSS_CHAIN_ROLE 99
   \<and> \<not> engineRoles demo_engine MINTER_ROLE 99
   \<and> \<not> engineRoles demo_engine URI_SETTER_ROLE 99
   \<and> \<not> engineRoles demo_engine PAUSER_ROLE 99
   \<and> \<not> engineRoles demo_engine OPERATOR_ROLE 99
   \<and> \<not> isActive (userReputations demo_engine 2)
   \<and> registerUser 99 1000 2 demo_engine
       = Inr (demo_engine\<lparr> userReputations := (userReputations demo_engine)(2 := newUser 1000) \<rparr>)
   \<and> isActive (newUser 1000)"
  by (simp add: demo_engine_def engine_grantRole_def engine_init_def registerUser_def
        zeroReputation_def newUser_def)

lemma determineEligibleTier_meets:
  "determineEligibleTier e tr r \<noteq> NoTier \<Longrightarrow> meetsThreshold e (determineEligibleTier e tr r) tr r"
  by (auto simp: determineEligibleTier_def split: if_splits)

lemma mintBadge_highest:
  assumes "mintBadge sender now rcv to t tr ra src b = Inr (tokenId, b')"
  shows "userHighestTier b' = (if tier_rank t > tier_rank (userHighestTier b to)
                               then (userHighestTier b)(to := t) else userHighestTier b)"
  using assms by (auto simp: mintBadge_def Let_def split: if_splits)

lemma mintBadge_mono:
  assumes "mintBadge sender now rcv to t tr ra src b = Inr (tokenId, b')"
  shows "tier_rank (userHighestTier b u) \<le> tier_rank (userHighestTier b' u)"
  using mintBadge_highest[OF assms] by auto

lemma checkAndMintBadge_cases:
  "checkAndMintBadge now rcv user e b = b
   \<or> (userHighestTier (checkAndMintBadge now rcv user e b)
        = (userHighestTier b)(user := determineEligibleTier e (successfulTrades (userReputations e user))
                                         (calculateAverageRating e user))
      \<and> tier_rank (determineEligibleTier e (successfulTrades (userReputations e user))
                        (calculateAverageRating e user)) > tier_rank (userHighestTier b user))"
  by (auto simp: checkAndMintBadge_def Let_def split: sum.splits dest!: mintBadge_highest)

lemma checkAndMintBadge_raised:
  "raised_ok e b (checkAndMintBadge now rcv user e b) u"
proof -
  let ?T = "determineEligibleTier e (successfulTrades (userReputations e user)) (calculateAverageRating e user)"
  from checkAndMintBadge_cases[of now rcv user e b] show ?thesis
  proof
    assume "checkAndMintBadge now rcv user e b = b"
    then show ?thesis by (simp add: raised_ok_def)
  next
    assume h: "userHighestTier (checkAndMintBadge now rcv user e b) = (userHighestTier b)(user := ?T)
      \<and> tier_rank (userHighestTier b user) < tier_rank ?T"
    then have "?T \<noteq> NoTier" by auto
    then have "meetsThreshold e ?T (successfulTrades (userReputations e user)) (calculateAverageRating e user)"
      by (rule determineEligibleTier_meets)
    with h show ?thesis by (cases "u = user") (simp_all add: raised_ok_def)
  qed
qed

lemma raised_ok_trans:
  "raised_ok e b b1 u \<Longrightarrow> raised_ok e b1 b2 u \<Longrightarrow> raised_ok e b b2 u"
  unfolding raised_ok_def by auto

lemma recordTrade_raised:
  assumes "recordTrade sender now rcv tid s bu amt rs rb (e, b) = Inr (e', b')"
  shows "raised_ok e' b b' u"
  using assms
  by (auto simp: recordTrade_def Let_def split: if_splits sum.splits
      intro: raised_ok_trans[OF checkAndMintBadge_raised checkAndMintBadge_raised])

lemma raised_ok_refl: "raised_ok e b b u"
  by (simp add: raised_ok_def)

lemma sync_raised:
  assumes "syncCrossChainReputation sender now rcv user src tr pts cnt sid (e, b) = Inr (e', b')"
  shows "raised_ok e' b b' u"
  using assms
  by (auto simp: syncCrossChainReputation_def Let_def raised_ok_refl checkAndMintBadge_raised split: if_splits)

lemma raised_ok_mono: "raised_ok e b b' u \<Longrightarrow> tier_rank (userHighestTier b u) \<le> tier_rank (userHighestTier b' u)"
  by (auto simp: raised_ok_def)

lemma rep_step_mono:
  "tier_rank (userHighestTier b u) \<le> tier_rank (userHighestTier (snd (rep_step self rcv c (e, b))) u)"
proof -
  obtain sender now call where c: "c = (sender, now, call)" by (cases c) auto
  show ?thesis
  proof (cases call)
    case (RecordTrade tid s bu amt rs rb)
    then show ?thesis using c
      by (auto split: sum.splits dest!: recordTrade_raised[where u=u] raised_ok_mono)
  next
    case (SyncCrossChainReputation user src tr pts cnt sid)
    then show ?thesis using c
      by (auto split: sum.splits dest!: sync_raised[where u=u] raised_ok_mono)
  next
    case (MintBadge to t tr ra src)
    then show ?thesis using c
      by (auto split: sum.splits dest!: mintBadge_mono[where u=u])
  next
    case (UpgradeBadge to t tr ra src)
    then show ?thesis using c
      by (auto simp: upgradeBadge_def split: sum.splits if_splits dest!: mintBadge_mono[where u=u])
  qed (use c in \<open>auto split: sum.splits simp: badge_grantRole_def split: if_splits\<close>)
qed

lemma rep_run_mono:
  "tier_rank (userHighestTier (snd eb) u) \<le> tier_rank (userHighestTier (snd (rep_run self rcv cs eb)) u)"
proof (induction cs arbitrary: eb)
  case Nil
  then show ?case by simp
next
  case (Cons c cs)
  have "tier_rank (userHighestTier (snd eb) u) \<le> tier_rank (userHighestTier (snd (rep_step self rcv c eb)) u)"
    using rep_step_mono[of "snd eb" u self rcv c "fst eb"] by simp
  also have "\<dots> \<le> tier_rank (userHighestTier (snd (rep_run self rcv cs (rep_step self rcv c eb))) u)"
    by (rule Cons.IH)
  finally show ?case by simp
qed

lemma sync_duplicate:
  assumes "syncCrossChainReputation sender now rcv user src tr pts cnt sid eb = Inr eb1"
  shows "syncCrossChainReputation sender now2 rcv2 user2 src2 tr2 pts2 cnt2 sid eb1 = Inr eb1"
  using assms
  by (auto simp: syncCrossChainReputation_def Let_def ensureRegistered_def split: if_splits)

lemma sync_duplicate_other:
  assumes "syncCrossChainReputation sender now rcv user src tr pts cnt sid eb = Inr eb1"
  shows "syncCrossChainReputation sender2 now2 rcv2 user2 src2 tr2 pts2 cnt2 sid eb1 =
     (if engineRoles (fst eb1) CROSS_CHAIN_ROLE sender2 then Inr eb1
      else Inl AccessControlUnauthorizedAccount)"
  using assms
  by (auto simp: syncCrossChainReputation_def Let_def ensureRegistered_def split: if_splits)

lemma ensureRegistered_fields:
  "processedCrossChainUpdates (ensureRegistered now u e) = processedCrossChainUpdates e"
  "engineRoles (ensureRegistered now u e) = engineRoles e"
  by (simp_all add: ensureRegistered_def)

lemma sync_fresh:
  assumes "syncCrossChainReputation sender now rcv user src tr pts cnt sid (e, b) = Inr eb1"
    and "\<not> processedCrossChainUpdates e sid"
  shows "fst eb1 =
    (let e2 = ensureRegistered now user
                (e\<lparr> processedCrossChainUpdates := (processedCrossChainUpdates e)(sid := True) \<rparr>);
         rep = userReputations e2 user
     in e2\<lparr> userReputations := (userReputations e2)
              (user := rep\<lparr> totalTrades := totalTrades rep + tr,
                              successfulTrades := successfulTrades rep + tr,
                              totalRatingPoints := totalRatingPoints rep + pts,
                              ratingCount := ratingCount rep + cnt \<rparr>) \<rparr>)"
proof -
  have r: "engineRoles e CROSS_CHAIN_ROLE sender"
    using assms(1) by (cases "engineRoles e CROSS_CHAIN_ROLE sender")
      (simp_all add: syncCrossChainReputation_def)
  show ?thesis
    using assms r
    by (simp add: syncCrossChainReputation_def Let_def split: if_split_asm) (metis fst_conv)
qed

lemma sync_adds_once:
  assumes "syncCrossChainReputation sender now rcv user src tr pts cnt sid (e, b) = Inr eb1"
    and "\<not> processedCrossChainUpdates e sid"
    and "syncCrossChainReputation sender now2 rcv2 user src tr pts cnt sid eb1 = Inr eb2"
  shows "totalTrades (userReputations (fst eb2) user)
           = (if isActive (userReputations e user) then totalTrades (userReputations e user) else 0) + tr
     \<and> successfulTrades (userReputations (fst eb2) user)
           = (if isActive (userReputations e user) then successfulTrades (userReputations e user) else 0) + tr
     \<and> totalRatingPoints (userReputations (fst eb2) user)
           = (if isActive (userReputations e user) then totalRatingPoints (userReputations e user) else 0) + pts
     \<and> ratingCount (userReputations (fst eb2) user)
           = (if isActive (userReputations e user) then ratingCount (userReputations e user) else 0) + cnt"
proof -
  have "syncCrossChainReputation sender now2 rcv2 user src tr pts cnt sid eb1 = Inr eb1"
    using assms(1) by (rule sync_duplicate)
  then have eq: "eb2 = eb1" using assms(3) by simp
  show ?thesis
    unfolding eq sync_fresh[OF assms(1,2)]
    by (simp add: Let_def ensureRegistered_def newUser_def)
qed

lemma sync_processed:
  assumes "syncCrossChainReputation sender now rcv user src tr pts cnt sid eb = Inr eb1"
  shows "processedCrossChainUpdates (fst eb1) sid"
proof (cases "processedCrossChainUpdates (fst eb) sid")
  case True
  then have "eb1 = eb"
    using assms by (simp add: syncCrossChainReputation_def Let_def split: if_split_asm)
  then show ?thesis using True by simp
next
  case False
  obtain e b where eb: "eb = (e, b)" by (cases eb) auto
  show ?thesis
    using sync_fresh[of sender now rcv user src tr pts cnt sid e b eb1] assms False eb
    by (simp add: Let_def ensureRegistered_fields)
qed

lemma sync_on_processed:
  assumes "processedCrossChainUpdates (fst eb) sid"
  shows "syncCrossChainReputation sender now rcv user src tr pts cnt sid eb =
     (if engineRoles (fst eb) CROSS_CHAIN_ROLE sender then Inr eb
      else Inl AccessControlUnauthorizedAccount)"
  using assms by (simp add: syncCrossChainReputation_def Let_def)

lemma sync_keeps:
  assumes "syncCrossChainReputation sender now rcv user src tr pts cnt sid (e, b) = Inr eb1"
  shows "(processedCrossChainUpdates e k \<longrightarrow> processedCrossChainUpdates (fst eb1) k)
     \<and> engineRoles (fst eb1) = engineRoles e"
proof (cases "processedCrossChainUpdates e sid")
  case True
  then have "eb1 = (e, b)"
    using assms by (simp add: syncCrossChainReputation_def Let_def split: if_split_asm)
  then show ?thesis by simp
next
  case False
  show ?thesis
    unfolding sync_fresh[OF assms False]
    by (simp add: Let_def ensureRegistered_fields)
qed

lemma updateReputation_keeps:
  assumes "updateReputation now user r cp amt tid wasB e = Inr e1"
  shows "processedCrossChainUpdates e1 = processedCrossChainUpdates e \<and> engineRoles e1 = engineRoles e"
  using assms
  by (auto simp: updateReputation_def Let_def simp del: shift_down.simps split: if_split_asm)

lemma recordTrade_keeps:
  assumes "recordTrade sender now rcv tid s bu amt rs rb (e, b) = Inr eb1"
  shows "processedCrossChainUpdates (fst eb1) = processedCrossChainUpdates e
     \<and> engineRoles (fst eb1) = engineRoles e"
proof -
  obtain e3 where a: "updateReputation now s rs bu amt tid False
                        (ensureRegistered now bu (ensureRegistered now s e)) = Inr e3"
    and b: "updateReputation now bu rb s amt tid True e3 = Inr (fst eb1)"
    using assms
    by (auto simp: recordTrade_def Let_def split: if_split_asm sum.splits)
  from updateReputation_keeps[OF a] updateReputation_keeps[OF b]
  show ?thesis by (simp add: ensureRegistered_fields)
qed

lemma rep_step_keeps:
  "(processedCrossChainUpdates (fst eb) k
      \<longrightarrow> processedCrossChainUpdates (fst (rep_step badgeSelf rcv c eb)) k)
   \<and> (engineRoles (fst eb) r a \<longrightarrow> engineRoles (fst (rep_step badgeSelf rcv c eb)) r a)"
proof -
  obtain sender now call where c: "c = (sender, now, call)" by (cases c) auto
  obtain e b where eb: "eb = (e, b)" by (cases eb) auto
  show ?thesis
  proof (cases call)
    case (RegisterUser user)
    then show ?thesis using c eb by (simp add: registerUser_def)
  next
    case (RecordTrade tid s bu amt rs rb)
    show ?thesis
    proof (cases "recordTrade sender now rcv tid s bu amt rs rb (e, b)")
      case (Inl err)
      then show ?thesis using c eb RecordTrade by simp
    next
      case (Inr eb1)
      then show ?thesis using c eb RecordTrade recordTrade_keeps[OF Inr] by simp
    qed
  next
    case (RecordDisputeResolution tid wi lo)
    show ?thesis
    proof (cases "recordDisputeResolution sender tid wi lo e")
      case (Inl err)
      then show ?thesis using c eb RecordDisputeResolution by simp
    next
      case (Inr e1)
      then have "processedCrossChainUpdates e1 = processedCrossChainUpdates e
          \<and> engineRoles e1 = engineRoles e"
        by (auto simp: recordDisputeResolution_def Let_def split: if_split_asm)
      then show ?thesis using c eb RecordDisputeResolution Inr by simp
    qed
  next
    case (SyncCrossChainReputation user src tr pts cnt sid)
    show ?thesis
    proof (cases "syncCrossChainReputation sender now rcv user src tr pts cnt sid (e, b)")
      case (Inl err)
      then show ?thesis using c eb SyncCrossChainReputation by simp
    next
      case (Inr eb1)
      then show ?thesis using c eb SyncCrossChainReputation sync_keeps[OF Inr, of k] by simp
    qed
  next
    case (UpdateTierThreshold t mt mr)
    show ?thesis
    proof (cases "updateTierThreshold sender t mt mr e")
      case (Inl err)
      then show ?thesis using c eb UpdateTierThreshold by simp
    next
      case (Inr e1)
      then have "processedCrossChainUpdates e1 = processedCrossChainUpdates e
          \<and> engineRoles e1 = engineRoles e"
        by (auto simp: updateTierThreshold_def Let_def split: if_split_asm)
      then show ?thesis using c eb UpdateTierThreshold Inr by simp
    qed
  next
    case (EngineGrantRole ro ad)
    show ?thesis
    proof (cases "engine_grantRole sender ro ad e")
      case (Inl err)
      then show ?thesis using c eb EngineGrantRole by simp
    next
      case (Inr e1)
      then have "processedCrossChainUpdates e1 = processedCrossChainUpdates e
          \<and> (engineRoles e r a \<longrightarrow> engineRoles e1 r a)"
        by (auto simp: engine_grantRole_def Let_def split: if_split_asm)
      then show ?thesis using c eb EngineGrantRole Inr by simp
    qed
  next
    case (MintBadge to t tr ra src)
    then show ?thesis using c eb by (simp split: sum.splits prod.splits)
  next
    case (UpgradeBadge to t tr ra src)
    then show ?thesis using c eb by (simp split: sum.splits prod.splits)
  next
    case (BadgeGrantRole ro ad)
    then show ?thesis using c eb by (simp split: sum.splits)
  qed
qed

lemma rep_run_keeps:
  "(processedCrossChainUpdates (fst eb) k
      \<longrightarrow> processedCrossChainUpdates (fst (rep_run badgeSelf rcv cs eb)) k)
   \<and> (engineRoles (fst eb) r a \<longrightarrow> engineRoles (fst (rep_run badgeSelf rcv cs eb)) r a)"
proof (induction cs arbitrary: eb)
  case Nil
  then show ?case by simp
next
  case (Cons c cs)
  show ?case
    using rep_step_keeps[of eb k badgeSelf rcv c r a] Cons.IH[of "rep_step badgeSelf rcv c eb"]
    by simp
qed

lemma handleTokenTransfer_br:
  "handleTokenTransfer mid m bw = Inr bw' \<Longrightarrow> br bw' = br bw"
  by (auto simp: handleTokenTransfer_def Let_def split: if_splits sum.splits)

lemma handleReputationSync_br:
  "handleReputationSync H now rcv mid m sc bw = Inr bw' \<Longrightarrow> br bw' = br bw"
  by (auto simp: handleReputationSync_def Let_def split: if_splits sum.splits list.splits)

lemma ccipReceive_marks:
  assumes "ccipReceive H now rcv m bw = Inr bw1"
  shows "processedMessages (br bw1) (messageId m)"
  using assms
  by (auto simp: ccipReceive_def Let_def split: if_splits option.splits
      dest!: handleTokenTransfer_br handleReputationSync_br)

lemma ccipReceive_replay:
  assumes "ccipReceive H now rcv m bw = Inr bw1" and "messageId m2 = messageId m"
  shows "ccipReceive H now2 rcv2 m2 bw1 = Inl MessageAlreadyProcessed"
  using ccipReceive_marks[OF assms(1)] assms(2)
  by (simp add: ccipReceive_def)

lemma deliver_idem:
  "deliver H now rcv m (deliver H now rcv m bw) = deliver H now rcv m bw"
proof (cases "ccipReceive H now rcv m bw")
  case (Inl err)
  then show ?thesis by (simp add: deliver_def)
next
  case (Inr bw1)
  from ccipReceive_replay[OF this refl, of now rcv] Inr show ?thesis
    by (simp add: deliver_def)
qed

lemma ccipReceive_br:
  assumes "ccipReceive H now rcv m bw = Inr bw1"
  shows "br bw1 = (br bw)\<lparr> processedMessages := (processedMessages (br bw))(messageId m := True) \<rparr>"
  using assms
  by (auto simp: ccipReceive_def Let_def split: if_splits option.splits
      dest!: handleTokenTransfer_br handleReputationSync_br)

lemma bridge_step_keeps:
  assumes "processedMessages (br bw) k"
  shows "processedMessages (br (bridge_step H rcv c bw)) k"
proof (cases c)
  case (Deliver now m)
  show ?thesis
  proof (cases "ccipReceive H now rcv m bw")
    case (Inl err)
    then show ?thesis using Deliver assms by (simp add: deliver_def)
  next
    case (Inr bw1)
    then show ?thesis using Deliver assms ccipReceive_br[OF Inr] by (simp add: deliver_def)
  qed
next
  case (ConfigureChain sender sel peer chainUsdc)
  show ?thesis
  proof (cases "configureChain sender sel peer chainUsdc (br bw)")
    case (Inl err)
    then show ?thesis using ConfigureChain assms by simp
  next
    case (Inr s)
    then have "processedMessages s = processedMessages (br bw)"
      by (auto simp: configureChain_def Let_def split: if_split_asm)
    then show ?thesis using ConfigureChain assms Inr by simp
  qed
next
  case (DeactivateChain sender sel)
  show ?thesis
  proof (cases "deactivateChain sender sel (br bw)")
    case (Inl err)
    then show ?thesis using DeactivateChain assms by simp
  next
    case (Inr s)
    then have "processedMessages s = processedMessages (br bw)"
      by (auto simp: deactivateChain_def split: if_split_asm)
    then show ?thesis using DeactivateChain assms Inr by simp
  qed
next
  case (BridgeOther s)
  then show ?thesis using assms by simp
next
  case (BridgeEnvironment e b bal)
  then show ?thesis using assms by simp
qed

lemma bridge_run_keeps:
  assumes "processedMessages (br bw) k"
  shows "processedMessages (br (bridge_run H rcv cs bw)) k"
  using assms
proof (induction cs arbitrary: bw)
  case Nil
  then show ?case by simp
next
  case (Cons c cs)
  show ?case
    using Cons.IH[OF bridge_step_keeps[OF Cons.prems]] by simp
qed

lemma syncReputation_payload:
  assumes "syncReputation router sender dest bw = Inr (mid, d, m)"
  shows "d = dest \<and> cfg_isActive (chainConfigs (br bw) dest)
     \<and> router dest m = Inr mid
     \<and> receiver m = bridgeContract (chainConfigs (br bw) dest)
     \<and> messageType (evm_data m) = ReputationSync
     \<and> msg_sender (evm_data m) = sender
     \<and> msg_data (evm_data m) =
         [successfulTrades (userReputations (br_engine bw) sender),
          calculateAverageRating (br_engine bw) sender * successfulTrades (userReputations (br_engine bw) sender),
          successfulTrades (userReputations (br_engine bw) sender)]"
  using assms
  by (auto simp: syncReputation_def getReputation_def Let_def split: if_splits sum.splits)

lemma exact_avg:
  assumes "ratingCount r = successfulTrades r" "ratingCount r dvd totalRatingPoints r"
  shows "(if ratingCount r = 0 then 0 else totalRatingPoints r div ratingCount r) * successfulTrades r = totalRatingPoints r"
  using assms by auto

text \<open>
  C3. A \<open>syncCrossChainReputation\<close> under a \<open>syncId\<close> that a successful earlier call has
  consumed returns the state unchanged, whatever its other arguments and whichever holder of
  the cross-chain role sends it (any other sender is refused, which changes nothing either):
  so directly after the first call, and so after any sequence of further calls to the engine
  and the badge contract, for a consumed \<open>syncId\<close> stays consumed. A message whose id a
  successful delivery has consumed is refused with \<open>MessageAlreadyProcessed\<close>, directly
  afterwards and after any further deliveries, configuration and other activity, so that
  delivering a message again leaves the state as it is, and delivering it twice leaves the
  state that delivering it once leaves. When a sync that adds \<open>tr\<close> trades, \<open>pts\<close> rating
  points and \<open>cnt\<close> ratings is applied twice under one fresh \<open>syncId\<close>, the user's counters
  grow by them once, from the stored values of an active user and from zero for a user not
  yet registered.
\<close>

theorem sync_idempotent:
  "(syncCrossChainReputation sender now rcv user src tr pts cnt sid eb = Inr eb' \<longrightarrow>
      syncCrossChainReputation sender now' rcv' user' src' tr' pts' cnt' sid eb' = Inr eb'
      \<and> syncCrossChainReputation sender' now' rcv' user' src' tr' pts' cnt' sid eb' =
          (if engineRoles (fst eb') CROSS_CHAIN_ROLE sender' then Inr eb'
           else Inl AccessControlUnauthorizedAccount)
      \<and> syncCrossChainReputation sender' now' rcv' user' src' tr' pts' cnt' sid
            (rep_run badgeSelf rcv' cs eb') =
          (if engineRoles (fst (rep_run badgeSelf rcv' cs eb')) CROSS_CHAIN_ROLE sender'
           then Inr (rep_run badgeSelf rcv' cs eb')
           else Inl AccessControlUnauthorizedAccount))
   \<and> (ccipReceive syncHash now rcv m bw = Inr bw' \<and> messageId m' = messageId m \<longrightarrow>
      ccipReceive syncHash now' rcv' m' bw' = Inl MessageAlreadyProcessed
      \<and> deliver syncHash now' rcv' m' bw' = bw'
      \<and> ccipReceive syncHash now' rcv' m' (bridge_run syncHash rcv' bcs bw')
          = Inl MessageAlreadyProcessed
      \<and> deliver syncHash now' rcv' m' (bridge_run syncHash rcv' bcs bw')
          = bridge_run syncHash rcv' bcs bw')
   \<and> deliver syncHash now rcv m (deliver syncHash now rcv m bw) = deliver syncHash now rcv m bw
   \<and> (syncCrossChainReputation sender now rcv user src tr pts cnt sid (e, b) = Inr eb'
      \<and> \<not> processedCrossChainUpdates e sid
      \<and> syncCrossChainReputation sender now' rcv' user src tr pts cnt sid eb' = Inr eb'' \<longrightarrow>
      totalTrades (userReputations (fst eb'') user)
        = (if isActive (userReputations e user) then totalTrades (userReputations e user) else 0) + tr
      \<and> successfulTrades (userReputations (fst eb'') user)
        = (if isActive (userReputations e user) then successfulTrades (userReputations e user) else 0) + tr
      \<and> totalRatingPoints (userReputations (fst eb'') user)
        = (if isActive (userReputations e user) then totalRatingPoints (userReputations e user) else 0) + pts
      \<and> ratingCount (userReputations (fst eb'') user)
        = (if isActive (userReputations e user) then ratingCount (userReputations e user) else 0) + cnt)"
proof -
  have p1: "syncCrossChainReputation sender now rcv user src tr pts cnt sid eb = Inr eb' \<longrightarrow>
      syncCrossChainReputation sender now' rcv' user' src' tr' pts' cnt' sid eb' = Inr eb'
      \<and> syncCrossChainReputation sender' now' rcv' user' src' tr' pts' cnt' sid eb' =
          (if engineRoles (fst eb') CROSS_CHAIN_ROLE sender' then Inr eb'
           else Inl AccessControlUnauthorizedAccount)
      \<and> syncCrossChainReputation sender' now' rcv' user' src' tr' pts' cnt' sid
            (rep_run badgeSelf rcv' cs eb') =
          (if engineRoles (fst (rep_run badgeSelf rcv' cs eb')) CROSS_CHAIN_ROLE sender'
           then Inr (rep_run badgeSelf rcv' cs eb')
           else Inl AccessControlUnauthorizedAccount)"
  proof (intro impI conjI)
    assume a: "syncCrossChainReputation sender now rcv user src tr pts cnt sid eb = Inr eb'"
    then show "syncCrossChainReputation sender now' rcv' user' src' tr' pts' cnt' sid eb' = Inr eb'"
      by (rule sync_duplicate)
    from a show "syncCrossChainReputation sender' now' rcv' user' src' tr' pts' cnt' sid eb' =
          (if engineRoles (fst eb') CROSS_CHAIN_ROLE sender' then Inr eb'
           else Inl AccessControlUnauthorizedAccount)"
      by (rule sync_duplicate_other)
    from a have "processedCrossChainUpdates (fst eb') sid" by (rule sync_processed)
    then have "processedCrossChainUpdates (fst (rep_run badgeSelf rcv' cs eb')) sid"
      using rep_run_keeps by blast
    then show "syncCrossChainReputation sender' now' rcv' user' src' tr' pts' cnt' sid
            (rep_run badgeSelf rcv' cs eb') =
          (if engineRoles (fst (rep_run badgeSelf rcv' cs eb')) CROSS_CHAIN_ROLE sender'
           then Inr (rep_run badgeSelf rcv' cs eb')
           else Inl AccessControlUnauthorizedAccount)"
      by (rule sync_on_processed)
  qed
  have p2: "ccipReceive syncHash now rcv m bw = Inr bw' \<and> messageId m' = messageId m \<longrightarrow>
      ccipReceive syncHash now' rcv' m' bw' = Inl MessageAlreadyProcessed
      \<and> deliver syncHash now' rcv' m' bw' = bw'
      \<and> ccipReceive syncHash now' rcv' m' (bridge_run syncHash rcv' bcs bw')
          = Inl MessageAlreadyProcessed
      \<and> deliver syncHash now' rcv' m' (bridge_run syncHash rcv' bcs bw')
          = bridge_run syncHash rcv' bcs bw'"
  proof (intro impI)
    assume h: "ccipReceive syncHash now rcv m bw = Inr bw' \<and> messageId m' = messageId m"
    then have a: "ccipReceive syncHash now' rcv' m' bw' = Inl MessageAlreadyProcessed"
      using ccipReceive_replay by blast
    from h have "processedMessages (br bw') (messageId m')"
      using ccipReceive_marks by metis
    then have "processedMessages (br (bridge_run syncHash rcv' bcs bw')) (messageId m')"
      by (rule bridge_run_keeps)
    then have c: "ccipReceive syncHash now' rcv' m' (bridge_run syncHash rcv' bcs bw')
          = Inl MessageAlreadyProcessed"
      by (simp add: ccipReceive_def)
    from a c show "ccipReceive syncHash now' rcv' m' bw' = Inl MessageAlreadyProcessed
      \<and> deliver syncHash now' rcv' m' bw' = bw'
      \<and> ccipReceive syncHash now' rcv' m' (bridge_run syncHash rcv' bcs bw')
          = Inl MessageAlreadyProcessed
      \<and> deliver syncHash now' rcv' m' (bridge_run syncHash rcv' bcs bw')
          = bridge_run syncHash rcv' bcs bw'"
      by (simp add: deliver_def)
  qed
  have p3: "deliver syncHash now rcv m (deliver syncHash now rcv m bw) = deliver syncHash now rcv m bw"
    by (rule deliver_idem)
  have p4: "syncCrossChainReputation sender now rcv user src tr pts cnt sid (e, b) = Inr eb'
      \<and> \<not> processedCrossChainUpdates e sid
      \<and> syncCrossChainReputation sender now' rcv' user src tr pts cnt sid eb' = Inr eb'' \<longrightarrow>
      totalTrades (userReputations (fst eb'') user)
        = (if isActive (userReputations e user) then totalTrades (userReputations e user) else 0) + tr
      \<and> successfulTrades (userReputations (fst eb'') user)
        = (if isActive (userReputations e user) then successfulTrades (userReputations e user) else 0) + tr
      \<and> totalRatingPoints (userReputations (fst eb'') user)
        = (if isActive (userReputations e user) then totalRatingPoints (userReputations e user) else 0) + pts
      \<and> ratingCount (userReputations (fst eb'') user)
        = (if isActive (userReputations e user) then ratingCount (userReputations e user) else 0) + cnt"
    using sync_adds_once by blast
  from p1 p2 p3 p4 show ?thesis by blast
qed

lemma demo_two_trades_rep:
  "userReputations (fst demo_two_trades) 2 =
     \<lparr> totalTrades = 2, successfulTrades = 2, disputesWon = 0, disputesLost = 0,
       totalRatingPoints = 905, ratingCount = 2, lastTradeTimestamp = 2000, joinTimestamp = 1000,
       isActive = True \<rparr>"
  by (simp add: demo_two_trades_def demo_engine_def demo_badge_def engine_grantRole_def
      badge_grantRole_def engine_init_def badge_init_def recordTrade_def ensureRegistered_def
      updateReputation_def newUser_def zeroReputation_def Let_def MAX_UINT256_def
      checkAndMintBadge_def calculateAverageRating_def determineEligibleTier_def meetsThreshold_def)

lemma demo_bridge_world_facts:
  "engineRoles (br_engine demo_bridge_world) CROSS_CHAIN_ROLE 14"
  "\<not> processedCrossChainUpdates (br_engine demo_bridge_world) sid"
  "userReputations (br_engine demo_bridge_world) 2 = userReputations (fst demo_two_trades) 2"
  "bridgeAddress (br demo_bridge_world) = 14"
  "\<not> processedMessages (br demo_bridge_world) k"
  "chainConfigs (br demo_bridge_world) 5 =
     \<lparr> chainSelector = 5, bridgeContract = 15, cfg_usdcToken = 10, cfg_isActive = True \<rparr>"
  "linkToken (br demo_bridge_world) = 20"
  by (simp_all add: demo_bridge_world_def demo_two_trades_def demo_engine_def demo_badge_def
      engine_grantRole_def badge_grantRole_def engine_init_def badge_init_def recordTrade_def
      ensureRegistered_def updateReputation_def newUser_def zeroReputation_def Let_def
      MAX_UINT256_def demo_bridge_def configureChain_def bridge_init_def)

lemma demo_sync_received:
  "\<exists>bw1. ccipReceive demo_sync_hash 3000 eoa demo_sync_message demo_bridge_world = Inr bw1
     \<and> totalTrades (userReputations (br_engine bw1) 2) = 7"
  by (simp add: ccipReceive_def handleReputationSync_def demo_sync_message_def Let_def
      demo_bridge_world_facts syncCrossChainReputation_def ensureRegistered_def
      demo_two_trades_rep MAX_UINT256_def)

lemma demo_bridge_world_newcomer:
  "userReputations (br_engine demo_bridge_world) 9 = zeroReputation"
  by (simp add: demo_bridge_world_def demo_two_trades_def demo_engine_def demo_badge_def
      engine_grantRole_def badge_grantRole_def engine_init_def badge_init_def recordTrade_def
      ensureRegistered_def updateReputation_def newUser_def zeroReputation_def Let_def
      MAX_UINT256_def)

lemma demo_sync_newcomer:
  "\<exists>eb1. syncCrossChainReputation 14 3000 eoa 9 5 5 2250 5 9
            (br_engine demo_bridge_world, br_badge demo_bridge_world) = Inr eb1
     \<and> engineRoles (fst eb1) CROSS_CHAIN_ROLE 14"
  by (simp add: syncCrossChainReputation_def Let_def demo_bridge_world_facts ensureRegistered_def
      demo_bridge_world_newcomer zeroReputation_def newUser_def MAX_UINT256_def)

theorem sync_idempotent_witness:
  "(case ccipReceive demo_sync_hash 3000 eoa demo_sync_message demo_bridge_world of
      Inl err \<Rightarrow> False
    | Inr bw' \<Rightarrow>
        ccipReceive demo_sync_hash 4000 eoa demo_sync_message bw' = Inl MessageAlreadyProcessed
        \<and> deliver demo_sync_hash 4000 eoa demo_sync_message bw' = bw'
        \<and> ccipReceive demo_sync_hash 4000 eoa demo_sync_message
            (bridge_run demo_sync_hash eoa [Deliver 3500 demo_other_message] bw')
            = Inl MessageAlreadyProcessed
        \<and> totalTrades (userReputations (br_engine bw') 2) = 7)
   \<and> totalTrades (userReputations (br_engine demo_bridge_world) 2) = 2
   \<and> \<not> isActive (userReputations (br_engine demo_bridge_world) 9)
   \<and> \<not> processedCrossChainUpdates (br_engine demo_bridge_world) 9
   \<and> (case syncCrossChainReputation 14 3000 eoa 9 5 5 2250 5 9
            (br_engine demo_bridge_world, br_badge demo_bridge_world) of
        Inl err \<Rightarrow> False
      | Inr eb' \<Rightarrow>
          syncCrossChainReputation 14 4000 eoa 9 5 5 2250 5 9 eb' = Inr eb'
          \<and> syncCrossChainReputation 14 4000 eoa 9 5 5 2250 5 9 (rep_run 11 eoa demo_between eb')
              = Inr (rep_run 11 eoa demo_between eb')
          \<and> totalTrades (userReputations (fst eb') 9) = 5
          \<and> totalRatingPoints (userReputations (fst eb') 9) = 2250)"
proof -
  obtain bw' where r: "ccipReceive demo_sync_hash 3000 eoa demo_sync_message demo_bridge_world = Inr bw'"
    and t: "totalTrades (userReputations (br_engine bw') 2) = 7"
    using demo_sync_received by blast
  obtain eb' where s: "syncCrossChainReputation 14 3000 eoa 9 5 5 2250 5 9
            (br_engine demo_bridge_world, br_badge demo_bridge_world) = Inr eb'"
    and ro: "engineRoles (fst eb') CROSS_CHAIN_ROLE 14"
    using demo_sync_newcomer by blast
  have pre: "\<not> processedCrossChainUpdates (br_engine demo_bridge_world) 9"
    "\<not> isActive (userReputations (br_engine demo_bridge_world) 9)"
    by (simp_all add: demo_bridge_world_facts demo_bridge_world_newcomer zeroReputation_def)
  have ro': "engineRoles (fst (rep_run 11 eoa demo_between eb')) CROSS_CHAIN_ROLE 14"
    using rep_run_keeps ro by blast
  note inst = sync_idempotent [where sender = 14 and now = 3000 and rcv = eoa and user = 9
      and src = 5 and tr = 5 and pts = 2250 and cnt = 5 and sid = 9
      and eb = "(br_engine demo_bridge_world, br_badge demo_bridge_world)" and eb' = eb'
      and e = "br_engine demo_bridge_world" and b = "br_badge demo_bridge_world" and eb'' = eb'
      and now' = 4000 and rcv' = eoa and user' = 9 and src' = 5 and tr' = 5 and pts' = 2250
      and cnt' = 5 and sender' = 14 and badgeSelf = 11 and cs = demo_between
      and syncHash = demo_sync_hash and m = demo_sync_message
      and m' = demo_sync_message and bw = demo_bridge_world and bw' = bw'
      and bcs = "[Deliver 3500 demo_other_message]"]
  from inst r have a: "ccipReceive demo_sync_hash 4000 eoa demo_sync_message bw' = Inl MessageAlreadyProcessed"
    and b: "deliver demo_sync_hash 4000 eoa demo_sync_message bw' = bw'"
    and b': "ccipReceive demo_sync_hash 4000 eoa demo_sync_message
            (bridge_run demo_sync_hash eoa [Deliver 3500 demo_other_message] bw')
            = Inl MessageAlreadyProcessed" by simp_all
  from inst s have c: "syncCrossChainReputation 14 4000 eoa 9 5 5 2250 5 9 eb' = Inr eb'" by simp
  from inst s ro' have c': "syncCrossChainReputation 14 4000 eoa 9 5 5 2250 5 9
      (rep_run 11 eoa demo_between eb') = Inr (rep_run 11 eoa demo_between eb')" by simp
  from inst s c pre have d: "totalTrades (userReputations (fst eb') 9) = 5"
    "totalRatingPoints (userReputations (fst eb') 9) = 2250"
    by simp_all
  show ?thesis
    using r t a b b' s c c' d pre by (simp add: demo_bridge_world_facts demo_two_trades_rep)
qed

text \<open>
  C2, as the code has it. Under every sequence of calls to the engine and the badge contract
  (mints and upgrades by any holder of \<open>MINTER_ROLE\<close> included) the highest tier of a user
  never decreases. When \<open>recordTrade\<close> or \<open>syncCrossChainReputation\<close> moves it, it moves to a
  strictly higher tier whose thresholds the user's successful-trade count and average rating
  after the update both meet.
\<close>

theorem tier_monotone:
  "tier_rank (userHighestTier (snd eb) u)
     \<le> tier_rank (userHighestTier (snd (rep_run badgeSelf rcv cs eb)) u)
   \<and> (recordTrade sender now rcv tid s bu amt rs rb (e, b) = Inr (e', b')
        \<and> userHighestTier b' u \<noteq> userHighestTier b u \<longrightarrow>
        meetsThreshold e' (userHighestTier b' u) (successfulTrades (userReputations e' u))
          (calculateAverageRating e' u)
        \<and> tier_rank (userHighestTier b u) < tier_rank (userHighestTier b' u))
   \<and> (syncCrossChainReputation sender now rcv user src tr pts cnt sid (e, b) = Inr (e', b')
        \<and> userHighestTier b' u \<noteq> userHighestTier b u \<longrightarrow>
        meetsThreshold e' (userHighestTier b' u) (successfulTrades (userReputations e' u))
          (calculateAverageRating e' u)
        \<and> tier_rank (userHighestTier b u) < tier_rank (userHighestTier b' u))"
proof (intro conjI impI)
  show "tier_rank (userHighestTier (snd eb) u)
     \<le> tier_rank (userHighestTier (snd (rep_run badgeSelf rcv cs eb)) u)"
    by (rule rep_run_mono)
next
  assume h: "recordTrade sender now rcv tid s bu amt rs rb (e, b) = Inr (e', b')
        \<and> userHighestTier b' u \<noteq> userHighestTier b u"
  then have r: "raised_ok e' b b' u" using recordTrade_raised by blast
  from r h show "meetsThreshold e' (userHighestTier b' u) (successfulTrades (userReputations e' u))
          (calculateAverageRating e' u)" by (simp add: raised_ok_def)
  from r h show "tier_rank (userHighestTier b u) < tier_rank (userHighestTier b' u)"
    by (simp add: raised_ok_def)
next
  assume h: "syncCrossChainReputation sender now rcv user src tr pts cnt sid (e, b) = Inr (e', b')
        \<and> userHighestTier b' u \<noteq> userHighestTier b u"
  then have r: "raised_ok e' b b' u" using sync_raised by blast
  from r h show "meetsThreshold e' (userHighestTier b' u) (successfulTrades (userReputations e' u))
          (calculateAverageRating e' u)" by (simp add: raised_ok_def)
  from r h show "tier_rank (userHighestTier b u) < tier_rank (userHighestTier b' u)"
    by (simp add: raised_ok_def)
qed

lemma demo_nine_trades_rep:
  "userReputations (fst demo_nine_trades) 2 =
     \<lparr> totalTrades = 9, successfulTrades = 9, disputesWon = 0, disputesLost = 0,
       totalRatingPoints = 3600, ratingCount = 9, lastTradeTimestamp = 1008, joinTimestamp = 1000,
       isActive = True \<rparr>"
  "userHighestTier (snd demo_nine_trades) 2 = NoTier"
  by (simp_all add: demo_nine_trades_def demo_engine_def demo_badge_def engine_grantRole_def
      badge_grantRole_def engine_init_def badge_init_def recordTrade_def ensureRegistered_def
      updateReputation_def newUser_def zeroReputation_def Let_def MAX_UINT256_def
      checkAndMintBadge_def calculateAverageRating_def determineEligibleTier_def meetsThreshold_def)

lemma demo_tenth_trade:
  "\<exists>e' b'. recordTrade 13 1009 eoa 10 2 3 100000000 400 500 demo_nine_trades = Inr (e', b')
     \<and> userHighestTier b' 2 = Bronze \<and> successfulTrades (userReputations e' 2) = 10
     \<and> calculateAverageRating e' 2 = 400"
  by (simp add: demo_nine_trades_def demo_engine_def demo_badge_def engine_grantRole_def
      badge_grantRole_def engine_init_def badge_init_def recordTrade_def ensureRegistered_def
      updateReputation_def newUser_def zeroReputation_def Let_def MAX_UINT256_def
      checkAndMintBadge_def calculateAverageRating_def determineEligibleTier_def meetsThreshold_def
      mintBadge_def eoa_def)

theorem tier_monotone_witness:
  "userHighestTier (snd demo_nine_trades) 2 = NoTier
   \<and> (case recordTrade 13 1009 eoa 10 2 3 100000000 400 500 demo_nine_trades of
        Inl err \<Rightarrow> False
      | Inr eb' \<Rightarrow>
          userHighestTier (snd eb') 2 = Bronze
          \<and> successfulTrades (userReputations (fst eb') 2) = 10
          \<and> calculateAverageRating (fst eb') 2 = 400
          \<and> meetsThreshold (fst eb') Bronze 10 400)
   \<and> tier_rank (userHighestTier (snd demo_nine_trades) 2)
        \<le> tier_rank (userHighestTier (snd (rep_run 11 eoa
              [(13, 1009, RecordTrade 10 2 3 100000000 400 500)] demo_nine_trades)) 2)"
proof -
  obtain e' b' where r: "recordTrade 13 1009 eoa 10 2 3 100000000 400 500 demo_nine_trades = Inr (e', b')"
    and f: "userHighestTier b' 2 = Bronze" "successfulTrades (userReputations e' 2) = 10"
      "calculateAverageRating e' 2 = 400"
    using demo_tenth_trade by blast
  note inst = tier_monotone [where eb = demo_nine_trades and u = 2 and badgeSelf = 11 and rcv = eoa
      and cs = "[(13, 1009, RecordTrade 10 2 3 100000000 400 500)]" and sender = 13 and now = 1009
      and tid = 10 and s = 2 and bu = 3 and amt = 100000000 and rs = 400 and rb = 500
      and e = "fst demo_nine_trades" and b = "snd demo_nine_trades" and e' = e' and b' = b']
  have ne: "userHighestTier b' 2 \<noteq> userHighestTier (snd demo_nine_trades) 2"
    using f(1) demo_nine_trades_rep(2) by simp
  from inst r ne have "meetsThreshold e' (userHighestTier b' 2)
      (successfulTrades (userReputations e' 2)) (calculateAverageRating e' 2)" by simp
  then have m: "meetsThreshold e' Bronze 10 400" using f by simp
  from inst have "tier_rank (userHighestTier (snd demo_nine_trades) 2)
        \<le> tier_rank (userHighestTier (snd (rep_run 11 eoa
              [(13, 1009, RecordTrade 10 2 3 100000000 400 500)] demo_nine_trades)) 2)" by blast
  then show ?thesis using r f m demo_nine_trades_rep(2) by simp
qed

text \<open>
  C2 as stated fails for a mint that does not come from the engine: the owner, who holds
  \<open>MINTER_ROLE\<close> from the constructor, mints Bronze to the seller as the test suite does; the
  seller's highest tier moves from none to Bronze while the engine counts no trade for the
  seller, so the Bronze thresholds are not met.
\<close>

theorem direct_mint_counterexample:
  "userHighestTier demo_badge 2 = NoTier
   \<and> userHighestTier (snd (rep_run 11 eoa [(1, 1000, MintBadge 2 Bronze 10 400 31337)]
                              (demo_engine, demo_badge))) 2 = Bronze
   \<and> successfulTrades (userReputations demo_engine 2) = 0
   \<and> \<not> meetsThreshold demo_engine Bronze (successfulTrades (userReputations demo_engine 2))
          (calculateAverageRating demo_engine 2)"
  by (simp add: demo_engine_def demo_badge_def engine_grantRole_def badge_grantRole_def
      engine_init_def badge_init_def mintBadge_def Let_def MAX_UINT256_def eoa_def
      zeroReputation_def meetsThreshold_def calculateAverageRating_def)

text \<open>
  C7, as the code has it. The message that \<open>syncReputation\<close> hands to the router for an active
  destination is a \<open>ReputationSync\<close> message from the caller whose payload is the caller's
  successful-trade count, then the caller's average rating (the stored points divided by the
  stored count, rounded down, zero without ratings) multiplied by that count, then that count
  again. The payload equals the stored rating points and rating count when the rating count
  equals the successful-trade count and divides the points.
\<close>

theorem syncReputation_message:
  assumes "syncReputation router sender dest bw = Inr (mid, d, m)"
  shows "d = dest \<and> cfg_isActive (chainConfigs (br bw) dest)
     \<and> router dest m = Inr mid
     \<and> receiver m = bridgeContract (chainConfigs (br bw) dest)
     \<and> messageType (evm_data m) = ReputationSync
     \<and> msg_sender (evm_data m) = sender
     \<and> msg_data (evm_data m) =
         [successfulTrades (userReputations (br_engine bw) sender),
          calculateAverageRating (br_engine bw) sender
            * successfulTrades (userReputations (br_engine bw) sender),
          successfulTrades (userReputations (br_engine bw) sender)]
     \<and> (ratingCount (userReputations (br_engine bw) sender)
           = successfulTrades (userReputations (br_engine bw) sender)
         \<and> ratingCount (userReputations (br_engine bw) sender)
             dvd totalRatingPoints (userReputations (br_engine bw) sender) \<longrightarrow>
         msg_data (evm_data m) =
           [successfulTrades (userReputations (br_engine bw) sender),
            totalRatingPoints (userReputations (br_engine bw) sender),
            ratingCount (userReputations (br_engine bw) sender)])"
  using syncReputation_payload[OF assms] exact_avg[of "userReputations (br_engine bw) sender"]
  by (auto simp: calculateAverageRating_def Let_def)

theorem syncReputation_message_witness:
  "syncReputation demo_router 3 5 demo_bridge_world =
     Inr (77, 5, \<lparr> receiver = 15,
                   evm_data = \<lparr> messageType = ReputationSync, msg_sender = 3, msg_recipient = 3,
                                msg_amount = 0, msg_data = [2, 1000, 2] \<rparr>,
                   gasLimit = 500000, feeToken = 20 \<rparr>)
   \<and> totalRatingPoints (userReputations (br_engine demo_bridge_world) 3) = 1000
   \<and> ratingCount (userReputations (br_engine demo_bridge_world) 3) = 2"
proof -
  have rep: "userReputations (br_engine demo_bridge_world) 3 =
     \<lparr> totalTrades = 2, successfulTrades = 2, disputesWon = 0, disputesLost = 0,
       totalRatingPoints = 1000, ratingCount = 2, lastTradeTimestamp = 2000, joinTimestamp = 1000,
       isActive = True \<rparr>"
    by (simp add: demo_bridge_world_def demo_two_trades_def demo_engine_def demo_badge_def
        engine_grantRole_def badge_grantRole_def engine_init_def badge_init_def recordTrade_def
        ensureRegistered_def updateReputation_def newUser_def zeroReputation_def Let_def
        MAX_UINT256_def)
  have run: "syncReputation demo_router 3 5 demo_bridge_world =
     Inr (77, 5, \<lparr> receiver = 15,
                   evm_data = \<lparr> messageType = ReputationSync, msg_sender = 3, msg_recipient = 3,
                                msg_amount = 0, msg_data = [2, 1000, 2] \<rparr>,
                   gasLimit = 500000, feeToken = 20 \<rparr>)"
    by (simp add: syncReputation_def getReputation_def Let_def demo_bridge_world_facts rep
        calculateAverageRating_def MAX_UINT256_def demo_router_def)
  from syncReputation_message[OF run] rep run show ?thesis by simp
qed

text \<open>
  C7 as stated fails where the average is not whole: the engine stores 905 rating points in
  2 ratings for seller \<open>2\<close> (ratings 450 and 455), and the payload carries 904 points.
\<close>

theorem syncReputation_lossy_counterexample:
  "totalRatingPoints (userReputations (br_engine demo_bridge_world) 2) = 905
   \<and> ratingCount (userReputations (br_engine demo_bridge_world) 2) = 2
   \<and> successfulTrades (userReputations (br_engine demo_bridge_world) 2) = 2
   \<and> syncReputation demo_router 2 5 demo_bridge_world =
       Inr (77, 5, \<lparr> receiver = 15,
                     evm_data = \<lparr> messageType = ReputationSync, msg_sender = 2, msg_recipient = 2,
                                  msg_amount = 0, msg_data = [2, 904, 2] \<rparr>,
                     gasLimit = 500000, feeToken = 20 \<rparr>)"
  by (simp add: syncReputation_def getReputation_def Let_def demo_bridge_world_facts
      demo_two_trades_rep calculateAverageRating_def MAX_UINT256_def demo_router_def)


section \<open>Properties of the escrow\<close>

lemma releaseToSeller_effect:
  assumes "releaseToSeller s t bal = Inr (bal', ps)"
  shows "platformFee t \<le> amount t
     \<and> ps = [(paymentToken t, seller t, amount t - platformFee t),
             (paymentToken t, feeRecipient s, platformFee t)]"
  using assms by (auto simp: releaseToSeller_def Let_def split: if_splits sum.splits)

lemma createTrade_effect:
  assumes "createTrade hash sender now sellerA tok amt descr dur w = Inr (tid, w')"
  shows "tid = hash sender sellerA now (tradeNonce (escrow w))
     \<and> sellerA \<noteq> sender \<and> amt \<noteq> 0
     \<and> escrow w' = (escrow w)\<lparr>
          trades := (trades (escrow w))(tid :=
            \<lparr> tradeId = tid, buyer = sender, seller = sellerA, paymentToken = tok, amount = amt,
              platformFee = (amt * platformFeeRate (escrow w)) div BASIS_POINTS, createdAt = now,
              expiresAt = now + (if dur > 0 then dur else defaultExpiryDuration (escrow w)),
              deliveredAt = 0, completedAt = 0, status = Created, itemDescription = descr,
              deliveryProof = [], buyerRating = 0, sellerRating = 0 \<rparr>),
          userTrades := ((userTrades (escrow w))(sender := userTrades (escrow w) sender @ [tid]))
                          (sellerA := ((userTrades (escrow w))(sender := userTrades (escrow w) sender @ [tid])) sellerA @ [tid]),
          tradeNonce := tradeNonce (escrow w) + 1 \<rparr>"
  using assms
  by (auto simp: createTrade_def calculateFee_def registerUser_def Let_def
      split: if_splits sum.splits prod.splits)

lemma acceptTrade_effect:
  assumes "acceptTrade sender now tid w = Inr (w', ps)"
  shows "status (trades (escrow w) tid) = Created \<and> ps = []
     \<and> escrow w' = (escrow w)\<lparr> trades := (trades (escrow w))(tid := (trades (escrow w) tid)\<lparr> status := SellerAccepted \<rparr>) \<rparr>"
  using assms by (auto simp: acceptTrade_def Let_def split: if_splits)

lemma markDelivered_effect:
  assumes "markDelivered sender now tid dp w = Inr (w', ps)"
  shows "status (trades (escrow w) tid) = SellerAccepted \<and> ps = []
     \<and> escrow w' = (escrow w)\<lparr> trades := (trades (escrow w))(tid :=
          (trades (escrow w) tid)\<lparr> status := Delivered, deliveredAt := now, deliveryProof := dp \<rparr>) \<rparr>"
  using assms by (auto simp: markDelivered_def Let_def split: if_splits)

lemma confirmDelivery_effect:
  assumes "confirmDelivery sender now tid r w = Inr (w', ps)"
  shows "status (trades (escrow w) tid) = Delivered \<and> sender = buyer (trades (escrow w) tid)
     \<and> 100 \<le> r \<and> r \<le> 500
     \<and> platformFee (trades (escrow w) tid) \<le> amount (trades (escrow w) tid)
     \<and> ps = [(paymentToken (trades (escrow w) tid), seller (trades (escrow w) tid),
              amount (trades (escrow w) tid) - platformFee (trades (escrow w) tid)),
             (paymentToken (trades (escrow w) tid), feeRecipient (escrow w),
              platformFee (trades (escrow w) tid))]
     \<and> escrow w' = (escrow w)\<lparr> trades := (trades (escrow w))(tid :=
          (trades (escrow w) tid)\<lparr> status := Completed, completedAt := now, buyerRating := r \<rparr>) \<rparr>"
  using assms
  by (auto simp: confirmDelivery_def Let_def split: if_splits sum.splits prod.splits
      dest!: releaseToSeller_effect)

lemma autoRelease_effect:
  assumes "autoRelease sender now tid w = Inr (w', ps)"
  shows "status (trades (escrow w) tid) = Delivered
     \<and> deliveredAt (trades (escrow w) tid) + autoReleaseDelay (escrow w) \<le> now
     \<and> platformFee (trades (escrow w) tid) \<le> amount (trades (escrow w) tid)
     \<and> ps = [(paymentToken (trades (escrow w) tid), seller (trades (escrow w) tid),
              amount (trades (escrow w) tid) - platformFee (trades (escrow w) tid)),
             (paymentToken (trades (escrow w) tid), feeRecipient (escrow w),
              platformFee (trades (escrow w) tid))]
     \<and> escrow w' = (escrow w)\<lparr> trades := (trades (escrow w))(tid :=
          (trades (escrow w) tid)\<lparr> status := Completed, completedAt := now, buyerRating := 500 \<rparr>) \<rparr>"
  using assms
  by (auto simp: autoRelease_def Let_def split: if_splits sum.splits prod.splits
      dest!: releaseToSeller_effect)

lemma rateBuyer_effect:
  assumes "rateBuyer sender now rcv tid r w = Inr (w', ps)"
  shows "status (trades (escrow w) tid) = Completed \<and> ps = []
     \<and> sellerRating (trades (escrow w) tid) = 0 \<and> 100 \<le> r \<and> r \<le> 500
     \<and> escrow w' = (escrow w)\<lparr> trades := (trades (escrow w))(tid :=
          (trades (escrow w) tid)\<lparr> sellerRating := r \<rparr>) \<rparr>"
  using assms
  by (auto simp: rateBuyer_def Let_def split: if_splits sum.splits prod.splits)

lemma cancelTrade_effect:
  assumes "cancelTrade sender now tid w = Inr (w', ps)"
  shows "status (trades (escrow w) tid) = Created
     \<and> ps = [(paymentToken (trades (escrow w) tid), buyer (trades (escrow w) tid), amount (trades (escrow w) tid))]
     \<and> escrow w' = (escrow w)\<lparr> trades := (trades (escrow w))(tid := (trades (escrow w) tid)\<lparr> status := Cancelled \<rparr>) \<rparr>"
  using assms by (auto simp: cancelTrade_def Let_def split: if_splits sum.splits)

lemma claimExpiredTrade_effect:
  assumes "claimExpiredTrade sender now tid w = Inr (w', ps)"
  shows "(status (trades (escrow w) tid) = Created \<or> status (trades (escrow w) tid) = SellerAccepted)
     \<and> expiresAt (trades (escrow w) tid) < now
     \<and> ps = [(paymentToken (trades (escrow w) tid), buyer (trades (escrow w) tid), amount (trades (escrow w) tid))]
     \<and> escrow w' = (escrow w)\<lparr> trades := (trades (escrow w))(tid := (trades (escrow w) tid)\<lparr> status := Expired \<rparr>) \<rparr>"
  using assms by (auto simp: claimExpiredTrade_def Let_def split: if_splits sum.splits)

lemma raiseDispute_effect:
  assumes "raiseDispute sender now tid why ev w = Inr (w', ps)"
  shows "status (trades (escrow w) tid) = Delivered \<and> ps = []
     \<and> escrow w' = (escrow w)\<lparr>
          trades := (trades (escrow w))(tid := (trades (escrow w) tid)\<lparr> status := Disputed \<rparr>),
          disputes := (disputes (escrow w))(tid :=
             \<lparr> d_tradeId = tid, initiator = sender, reason = why,
               buyerEvidence = (if sender = buyer (trades (escrow w) tid) then ev else []),
               sellerEvidence = (if sender = seller (trades (escrow w) tid) then ev else []),
               winner = 0, initiatedAt = now, resolvedAt = 0, isResolved = False \<rparr>) \<rparr>"
  using assms by (auto simp: raiseDispute_def Let_def split: if_splits)

lemma submitEvidence_effect:
  assumes "submitEvidence sender now tid ev w = Inr (w', ps)"
  shows "status (trades (escrow w) tid) = Disputed \<and> ps = []
     \<and> (sender = buyer (trades (escrow w) tid) \<or> sender = seller (trades (escrow w) tid))
     \<and> w' = w\<lparr> escrow := (escrow w)\<lparr> disputes := (disputes (escrow w))(tid :=
          (if sender = buyer (trades (escrow w) tid)
           then (disputes (escrow w) tid)\<lparr> buyerEvidence := ev \<rparr>
           else (disputes (escrow w) tid)\<lparr> sellerEvidence := ev \<rparr>)) \<rparr> \<rparr>"
  using assms by (auto simp: submitEvidence_def Let_def split: if_splits)

lemma resolveDispute_effect:
  assumes "resolveDispute sender now tid wi w = Inr (w', ps)"
  shows "escrowRoles (escrow w) DISPUTE_RESOLVER_ROLE sender
     \<and> status (trades (escrow w) tid) = Disputed
     \<and> (wi = buyer (trades (escrow w) tid) \<or> wi = seller (trades (escrow w) tid))
     \<and> (wi = seller (trades (escrow w) tid) \<longrightarrow> platformFee (trades (escrow w) tid) \<le> amount (trades (escrow w) tid))
     \<and> ps = (if wi = seller (trades (escrow w) tid)
             then [(paymentToken (trades (escrow w) tid), wi,
                    amount (trades (escrow w) tid) - platformFee (trades (escrow w) tid)),
                   (paymentToken (trades (escrow w) tid), feeRecipient (escrow w),
                    platformFee (trades (escrow w) tid))]
             else [(paymentToken (trades (escrow w) tid), wi, amount (trades (escrow w) tid))])
     \<and> escrow w' = (escrow w)\<lparr>
          trades := (trades (escrow w))(tid := (trades (escrow w) tid)\<lparr> status := Resolved \<rparr>),
          disputes := (disputes (escrow w))(tid :=
             (disputes (escrow w) tid)\<lparr> winner := wi, resolvedAt := now, isResolved := True \<rparr>) \<rparr>
     \<and> recordDisputeResolution (escrowAddress (escrow w)) tid wi
          (if wi = buyer (trades (escrow w) tid) then seller (trades (escrow w) tid)
           else buyer (trades (escrow w) tid)) (engine w) = Inr (engine w')"
  using assms
  by (auto simp: resolveDispute_def Let_def split: if_splits sum.splits)


lemma admin_effect:
  assumes "onlyAdmin sender f w = Inr (w', ps)"
  shows "ps = [] \<and> escrow w' = f (escrow w)"
  using assms by (auto simp: onlyAdmin_def split: if_splits)






lemma payouts_of_append_nil [simp]: "payouts_of k (l @ []) = payouts_of k l"
  by simp





lemma tagged_Inr:
  assumes "tagged tid fr r = Inr (w', l)"
  obtains ps where "r = Inr (w', ps)" and "l = map (Paid tid fr) ps"
  using assms by (auto simp: tagged_def split: sum.splits)








lemmas demo_eval =
  demo_world0_def demo_setup_def demo_flow_def demo_confirm_def demo_tid_def escrow_init_def
  escrow_setRole_def onlyAdmin_def tagged_def createTrade_def calculateFee_def BASIS_POINTS_def
  MAX_UINT256_def safeTransferFrom_def safeTransfer_def demo_ledger_def demo_approvals_def
  registerUser_def acceptTrade_def markDelivered_def confirmDelivery_def releaseToSeller_def
  raiseDispute_def demo_engine_def engine_grantRole_def engine_init_def zeroReputation_def
  newUser_def Let_def


lemma demo_completed_trade:
  "trades (escrow demo_completed) demo_tid =
     \<lparr> tradeId = demo_tid, buyer = 3, seller = 2, paymentToken = 10, amount = 100000000,
       platformFee = 2500000, createdAt = 1000, expiresAt = 1000 + 7 * 86400, deliveredAt = 1200,
       completedAt = 1300, status = Completed, itemDescription = ''Test item'',
       deliveryProof = ''ipfs://proof'', buyerRating = 500, sellerRating = 0 \<rparr>"
  by (simp add: demo_completed_def demo_eval)





lemma ratedOnCompletion_step:
  assumes inv: "ratedOnCompletion w" and st: "escrow_step hash rcv c w = Inr (w', l)"
  shows "ratedOnCompletion w'"
proof -
  obtain sender now call where c: "c = (sender, now, call)" by (cases c) auto
  show ?thesis
  proof (cases call)
    case (CreateTrade sellerA tok amt descr dur)
    with st c obtain tid where "createTrade hash sender now sellerA tok amt descr dur w = Inr (tid, w')"
      by (auto split: sum.splits)
    from createTrade_effect[OF this] inv show ?thesis
      by (simp add: ratedOnCompletion_def)
  next
    case (AcceptTrade tid)
    with st c obtain ps where "acceptTrade sender now tid w = Inr (w', ps)"
      by (auto elim: tagged_Inr)
    from acceptTrade_effect[OF this] inv show ?thesis
      by (simp add: ratedOnCompletion_def)
  next
    case (MarkDelivered tid dp)
    with st c obtain ps where "markDelivered sender now tid dp w = Inr (w', ps)"
      by (auto elim: tagged_Inr)
    from markDelivered_effect[OF this] inv show ?thesis
      by (simp add: ratedOnCompletion_def)
  next
    case (ConfirmDelivery tid r)
    with st c obtain ps where "confirmDelivery sender now tid r w = Inr (w', ps)"
      by (auto elim: tagged_Inr)
    from confirmDelivery_effect[OF this] inv show ?thesis
      by (simp add: ratedOnCompletion_def)
  next
    case (RateBuyer tid r)
    with st c obtain ps where "rateBuyer sender now rcv tid r w = Inr (w', ps)"
      by (auto elim: tagged_Inr)
    from rateBuyer_effect[OF this] inv show ?thesis
      by (simp add: ratedOnCompletion_def)
  next
    case (CancelTrade tid)
    with st c obtain ps where "cancelTrade sender now tid w = Inr (w', ps)"
      by (auto elim: tagged_Inr)
    from cancelTrade_effect[OF this] inv show ?thesis
      by (simp add: ratedOnCompletion_def)
  next
    case (ClaimExpiredTrade tid)
    with st c obtain ps where "claimExpiredTrade sender now tid w = Inr (w', ps)"
      by (auto elim: tagged_Inr)
    from claimExpiredTrade_effect[OF this] inv show ?thesis
      by (simp add: ratedOnCompletion_def)
  next
    case (AutoRelease tid)
    with st c obtain ps where "autoRelease sender now tid w = Inr (w', ps)"
      by (auto elim: tagged_Inr)
    from autoRelease_effect[OF this] inv show ?thesis
      by (simp add: ratedOnCompletion_def)
  next
    case (RaiseDispute tid why ev)
    with st c obtain ps where "raiseDispute sender now tid why ev w = Inr (w', ps)"
      by (auto elim: tagged_Inr)
    from raiseDispute_effect[OF this] inv show ?thesis
      by (simp add: ratedOnCompletion_def)
  next
    case (SubmitEvidence tid ev)
    with st c obtain ps where "submitEvidence sender now tid ev w = Inr (w', ps)"
      by (auto elim: tagged_Inr)
    from submitEvidence_effect[OF this] inv show ?thesis
      by (simp add: ratedOnCompletion_def)
  next
    case (ResolveDispute tid wi)
    with st c obtain ps where "resolveDispute sender now tid wi w = Inr (w', ps)"
      by (auto elim: tagged_Inr)
    from resolveDispute_effect[OF this] inv show ?thesis
      by (simp add: ratedOnCompletion_def)
  next
    case (Environment b e bal alw)
    with st c inv show ?thesis by (auto simp: ratedOnCompletion_def)
  qed (use st c inv in \<open>auto simp: ratedOnCompletion_def addSupportedToken_def
         removeSupportedToken_def updateFeeRate_def updateFeeRecipient_def updateDisputeWindow_def
         updateAutoReleaseDelay_def pause_def unpause_def escrow_setRole_def
         escrow_renounceRole_def elim!: tagged_Inr dest!: admin_effect split: if_splits\<close>)
qed

lemma ratedOnCompletion_run:
  assumes "ratedOnCompletion (fst wl)"
  shows "ratedOnCompletion (fst (escrow_run hash rcv cs wl))"
  using assms
proof (induction cs arbitrary: wl)
  case Nil
  then show ?case by simp
next
  case (Cons c cs)
  show ?case
  proof (cases "escrow_step hash rcv c (fst wl)")
    case (Inl err)
    then show ?thesis using Cons by simp
  next
    case (Inr r)
    obtain w' ps where r: "r = (w', ps)" by (cases r) auto
    have "ratedOnCompletion w'"
      using ratedOnCompletion_step[OF Cons.prems] Inr r by simp
    then show ?thesis using Cons.IH[of "(w', snd wl @ ps)"] Inr r by simp
  qed
qed

text \<open>
  C9. In every state the escrow reaches from its deployment, a completed trade carries a
  buyer's rating between 100 and 500. So when \<open>rateBuyer\<close> succeeds there, the rating the
  buyer gave is not zero and the call has gone through \<open>ReputationEngine.recordTrade\<close>, sent
  by the escrow with both ratings: the engine and the badge contract are left in the state
  that \<open>recordTrade\<close> returns.
\<close>

theorem completed_trade_is_rated:
  assumes "escrow w0 = escrow_init deployer self feeTo toks"
    and "escrow_run hash rcv cs (w0, l0) = (w, l)"
  shows "(status (trades (escrow w) tid) = Completed \<longrightarrow>
            100 \<le> buyerRating (trades (escrow w) tid) \<and> buyerRating (trades (escrow w) tid) \<le> 500)
     \<and> (rateBuyer sender now rcv' tid r w = Inr (w', ps) \<longrightarrow>
            buyerRating (trades (escrow w) tid) \<noteq> 0
            \<and> recordTrade (escrowAddress (escrow w)) now rcv' tid (seller (trades (escrow w) tid))
                 (buyer (trades (escrow w) tid)) (amount (trades (escrow w) tid))
                 (buyerRating (trades (escrow w) tid)) r (engine w, badge w)
               = Inr (engine w', badge w'))"
proof -
  have "ratedOnCompletion w0"
    using assms(1) by (simp add: ratedOnCompletion_def escrow_init_def zeroTrade_def)
  then have inv: "ratedOnCompletion w"
    using ratedOnCompletion_run[of "(w0, l0)" hash rcv cs] assms(2) by simp
  then have a: "status (trades (escrow w) tid) = Completed \<longrightarrow>
            100 \<le> buyerRating (trades (escrow w) tid) \<and> buyerRating (trades (escrow w) tid) \<le> 500"
    by (simp add: ratedOnCompletion_def)
  have b: "rateBuyer sender now rcv' tid r w = Inr (w', ps) \<longrightarrow>
            buyerRating (trades (escrow w) tid) \<noteq> 0
            \<and> recordTrade (escrowAddress (escrow w)) now rcv' tid (seller (trades (escrow w) tid))
                 (buyer (trades (escrow w) tid)) (amount (trades (escrow w) tid))
                 (buyerRating (trades (escrow w) tid)) r (engine w, badge w)
               = Inr (engine w', badge w')"
  proof
    assume rb: "rateBuyer sender now rcv' tid r w = Inr (w', ps)"
    then have "status (trades (escrow w) tid) = Completed"
      using rateBuyer_effect by blast
    with a have nz: "buyerRating (trades (escrow w) tid) \<noteq> 0" by auto
    with rb show "buyerRating (trades (escrow w) tid) \<noteq> 0
            \<and> recordTrade (escrowAddress (escrow w)) now rcv' tid (seller (trades (escrow w) tid))
                 (buyer (trades (escrow w) tid)) (amount (trades (escrow w) tid))
                 (buyerRating (trades (escrow w) tid)) r (engine w, badge w)
               = Inr (engine w', badge w')"
      by (auto simp: rateBuyer_def Let_def split: if_splits sum.splits)
  qed
  from a b show ?thesis by blast
qed

lemma demo_completed_engine:
  "engine demo_completed =
     demo_engine\<lparr> userReputations := ((userReputations demo_engine)(3 := newUser 1000))(2 := newUser 1000) \<rparr>"
  "badge demo_completed = demo_badge"
  "escrowAddress (escrow demo_completed) = 13"
  by (simp_all add: demo_completed_def demo_world0_def demo_setup_def demo_flow_def demo_confirm_def
      demo_tid_def escrow_init_def escrow_setRole_def onlyAdmin_def tagged_def createTrade_def
      calculateFee_def BASIS_POINTS_def MAX_UINT256_def safeTransferFrom_def safeTransfer_def
      demo_ledger_def demo_approvals_def registerUser_def acceptTrade_def markDelivered_def
      confirmDelivery_def releaseToSeller_def Let_def demo_engine_def engine_grantRole_def
      engine_init_def zeroReputation_def)

lemma demo_rateBuyer:
  "\<exists>w'. rateBuyer 2 1400 eoa demo_tid 450 demo_completed = Inr (w', [])
     \<and> successfulTrades (userReputations (engine w') 2) = 1
     \<and> calculateAverageRating (engine w') 2 = 500
     \<and> calculateAverageRating (engine w') 3 = 450"
  by (simp add: rateBuyer_def Let_def demo_completed_trade demo_completed_engine recordTrade_def
      demo_engine_def engine_grantRole_def engine_init_def ensureRegistered_def newUser_def
      updateReputation_def MAX_UINT256_def calculateAverageRating_def)

theorem completed_trade_is_rated_witness:
  "escrow demo_world0 = escrow_init 1 13 1 [10]
   \<and> status (trades (escrow demo_completed) demo_tid) = Completed
   \<and> buyerRating (trades (escrow demo_completed) demo_tid) = 500
   \<and> (case rateBuyer 2 1400 eoa demo_tid 450 demo_completed of
        Inl err \<Rightarrow> False
      | Inr (w', ps) \<Rightarrow>
          recordTrade 13 1400 eoa demo_tid 2 3 100000000 500 450
            (engine demo_completed, badge demo_completed) = Inr (engine w', badge w')
          \<and> successfulTrades (userReputations (engine w') 2) = 1
          \<and> calculateAverageRating (engine w') 2 = 500)"
proof -
  have d: "escrow demo_world0 = escrow_init 1 13 1 [10]"
    by (simp add: demo_world0_def)
  have r: "escrow_run demo_hash eoa demo_confirm (demo_world0, [])
       = (demo_completed, snd (escrow_run demo_hash eoa demo_confirm (demo_world0, [])))"
    by (simp add: demo_completed_def)
  obtain w' where rb: "rateBuyer 2 1400 eoa demo_tid 450 demo_completed = Inr (w', [])"
    and f: "successfulTrades (userReputations (engine w') 2) = 1"
      "calculateAverageRating (engine w') 2 = 500"
    using demo_rateBuyer by blast
  from completed_trade_is_rated[OF d r, of demo_tid 2 1400 eoa 450 w' "[]"] rb
  have "recordTrade 13 1400 eoa demo_tid 2 3 100000000 500 450
            (engine demo_completed, badge demo_completed) = Inr (engine w', badge w')"
    by (simp add: demo_completed_trade demo_completed_engine(3))
  then show ?thesis using d rb f by (simp add: demo_completed_trade)
qed







text \<open>
  C8, as the code has it. For a disputed trade, \<open>submitEvidence\<close> called by the buyer or the
  seller succeeds and replaces the caller's evidence slot of the dispute by the submitted
  evidence; the other party's slot, the other fields of the dispute and the rest of the
  state stay as they were, and no token moves.
\<close>

theorem submitEvidence_replaces:
  assumes "status (trades (escrow w) tid) = Disputed"
    and "sender = buyer (trades (escrow w) tid) \<or> sender = seller (trades (escrow w) tid)"
  shows "submitEvidence sender now tid evidence w =
     Inr (w\<lparr> escrow := (escrow w)\<lparr> disputes := (disputes (escrow w))(tid :=
            (if sender = buyer (trades (escrow w) tid)
             then (disputes (escrow w) tid)\<lparr> buyerEvidence := evidence \<rparr>
             else (disputes (escrow w) tid)\<lparr> sellerEvidence := evidence \<rparr>)) \<rparr> \<rparr>, [])"
  using assms by (auto simp: submitEvidence_def Let_def)

lemma demo_disputed_facts:
  "trades (escrow demo_disputed) demo_tid =
     \<lparr> tradeId = demo_tid, buyer = 3, seller = 2, paymentToken = 10, amount = 100000000,
       platformFee = 2500000, createdAt = 1000, expiresAt = 1000 + 7 * 86400, deliveredAt = 1200,
       completedAt = 0, status = Disputed, itemDescription = ''Test item'',
       deliveryProof = ''ipfs://proof'', buyerRating = 0, sellerRating = 0 \<rparr>"
  "disputes (escrow demo_disputed) demo_tid =
     \<lparr> d_tradeId = demo_tid, initiator = 3, reason = ''Item not as described'',
       buyerEvidence = ''ipfs://evidence'', sellerEvidence = [], winner = 0, initiatedAt = 1300,
       resolvedAt = 0, isResolved = False \<rparr>"
  "escrowRoles (escrow demo_disputed) DISPUTE_RESOLVER_ROLE 4"
  "escrowAddress (escrow demo_disputed) = 13"
  "balances demo_disputed 10 13 = 100000000"
  "engineRoles (engine demo_disputed) DISPUTE_RESOLVER_ROLE 13 = False"
  "engineRoles (engine demo_disputed) ESCROW_ROLE 13"
  by (simp_all add: demo_disputed_def demo_eval)

theorem submitEvidence_replaces_witness:
  "status (trades (escrow demo_disputed) demo_tid) = Disputed
   \<and> buyer (trades (escrow demo_disputed) demo_tid) = 3
   \<and> buyerEvidence (disputes (escrow demo_disputed) demo_tid) = ''ipfs://evidence''
   \<and> (case submitEvidence 3 1400 demo_tid ''ipfs://more'' demo_disputed of
        Inl err \<Rightarrow> False
      | Inr (w', ps) \<Rightarrow>
          buyerEvidence (disputes (escrow w') demo_tid) = ''ipfs://more''
          \<and> sellerEvidence (disputes (escrow w') demo_tid) = [] \<and> ps = [])"
  using submitEvidence_replaces [of demo_disputed demo_tid 3 1400 "''ipfs://more''"]
  by (simp add: demo_disputed_facts)

text \<open>
  C8 as stated fails: the evidence the buyer gave when raising the dispute is gone after
  the buyer submits again; the slot then holds the new evidence alone.
\<close>

theorem submitEvidence_overwrites_counterexample:
  "buyerEvidence (disputes (escrow demo_disputed) demo_tid) = ''ipfs://evidence''
   \<and> (case submitEvidence 3 1400 demo_tid ''ipfs://more'' demo_disputed of
        Inl err \<Rightarrow> False
      | Inr (w', ps) \<Rightarrow>
          buyerEvidence (disputes (escrow w') demo_tid) = ''ipfs://more''
          \<and> buyerEvidence (disputes (escrow w') demo_tid) \<noteq> ''ipfs://evidence'' @ ''ipfs://more'')"
  by (simp add: submitEvidence_def Let_def demo_disputed_facts)

text \<open>
  C5 on the deployment of the test suite and of the deployment script. The trade is disputed,
  account \<open>4\<close> holds the dispute-resolver role of the escrow and names the buyer as winner;
  the call reverts. \<open>resolveDispute\<close> ends in \<open>ReputationEngine.recordDisputeResolution\<close>, whose
  sender is the escrow contract, and the engine has granted the escrow \<open>ESCROW_ROLE\<close> only.
\<close>

theorem resolveDispute_reverts_in_test_deployment:
  "status (trades (escrow demo_disputed) demo_tid) = Disputed
   \<and> escrowRoles (escrow demo_disputed) DISPUTE_RESOLVER_ROLE 4
   \<and> buyer (trades (escrow demo_disputed) demo_tid) = 3
   \<and> seller (trades (escrow demo_disputed) demo_tid) = 2
   \<and> amount (trades (escrow demo_disputed) demo_tid) = balances demo_disputed 10 13
   \<and> engineRoles (engine demo_disputed) ESCROW_ROLE 13
   \<and> engineRoles (engine demo_disputed) DISPUTE_RESOLVER_ROLE 13 = False
   \<and> resolveDispute 4 1400 demo_tid 3 demo_disputed = Inl AccessControlUnauthorizedAccount
   \<and> resolveDispute 4 1400 demo_tid 2 demo_disputed = Inl AccessControlUnauthorizedAccount"
  by (simp add: resolveDispute_def Let_def demo_disputed_facts safeTransfer_def
      recordDisputeResolution_def)

text \<open>
  Where the engine has granted the escrow its dispute-resolver role (and the escrow holds the
  amount, the fee is at most the amount and the counters are below the largest \<open>uint256\<close>),
  \<open>resolveDispute\<close> by a resolver for the buyer or the seller does succeed: the trade becomes
  resolved, the buyer as winner receives the amount and no fee is taken, the seller as winner
  receives \<open>amount - platformFee\<close> and the fee goes to the fee recipient, and the engine counts
  a dispute won for the winner and a dispute lost for the other party.
\<close>

lemma safeTransfer_ok:
  assumes "amt \<le> bal tok src"
  shows "\<exists>bal'. safeTransfer tok src dst amt bal = Inr bal' \<and> bal tok src - amt \<le> bal' tok src"
  using assms by (simp add: safeTransfer_def Let_def)

lemma resolveDispute_pays_when_engine_accepts:
  assumes "escrowRoles (escrow w) DISPUTE_RESOLVER_ROLE sender"
    and "status (trades (escrow w) tid) = Disputed"
    and "wi = buyer (trades (escrow w) tid) \<or> wi = seller (trades (escrow w) tid)"
    and "platformFee (trades (escrow w) tid) \<le> amount (trades (escrow w) tid)"
    and "amount (trades (escrow w) tid)
           \<le> balances w (paymentToken (trades (escrow w) tid)) (escrowAddress (escrow w))"
    and "recordDisputeResolution (escrowAddress (escrow w)) tid wi
           (if wi = buyer (trades (escrow w) tid) then seller (trades (escrow w) tid)
            else buyer (trades (escrow w) tid)) (engine w) = Inr e'"
  shows "\<exists>w'. resolveDispute sender now tid wi w =
            Inr (w', if wi = seller (trades (escrow w) tid)
                     then [(paymentToken (trades (escrow w) tid), wi,
                            amount (trades (escrow w) tid) - platformFee (trades (escrow w) tid)),
                           (paymentToken (trades (escrow w) tid), feeRecipient (escrow w),
                            platformFee (trades (escrow w) tid))]
                     else [(paymentToken (trades (escrow w) tid), wi, amount (trades (escrow w) tid))])
          \<and> status (trades (escrow w') tid) = Resolved
          \<and> winner (disputes (escrow w') tid) = wi
          \<and> isResolved (disputes (escrow w') tid)
          \<and> engine w' = e'"
proof -
  let ?t = "trades (escrow w) tid" and ?s = "escrow w"
  show ?thesis
  proof (cases "wi = seller ?t")
    case True
    have le: "amount ?t - platformFee ?t \<le> balances w (paymentToken ?t) (escrowAddress ?s)"
      using assms(5) by linarith
    from le safeTransfer_ok[where bal = "balances w" and tok = "paymentToken ?t"
        and src = "escrowAddress ?s" and dst = wi and amt = "amount ?t - platformFee ?t"]
    obtain bal1 where t1: "safeTransfer (paymentToken ?t) (escrowAddress ?s) wi
          (amount ?t - platformFee ?t) (balances w) = Inr bal1"
      and r1: "balances w (paymentToken ?t) (escrowAddress ?s) - (amount ?t - platformFee ?t)
          \<le> bal1 (paymentToken ?t) (escrowAddress ?s)"
      by blast
    have "platformFee ?t \<le> bal1 (paymentToken ?t) (escrowAddress ?s)"
      using r1 assms(4,5) by linarith
    with safeTransfer_ok[where bal = bal1 and tok = "paymentToken ?t"
        and src = "escrowAddress ?s" and dst = "feeRecipient ?s" and amt = "platformFee ?t"]
    obtain bal2 where t2: "safeTransfer (paymentToken ?t) (escrowAddress ?s) (feeRecipient ?s)
          (platformFee ?t) bal1 = Inr bal2"
      by blast
    show ?thesis
      using True assms(1,2,4,6) t1 t2 by (simp add: resolveDispute_def Let_def)
  next
    case False
    then have wb: "wi = buyer ?t" using assms(3) by simp
    from assms(5) safeTransfer_ok[where bal = "balances w" and tok = "paymentToken ?t"
        and src = "escrowAddress ?s" and dst = wi and amt = "amount ?t"]
    obtain bal1 where t1: "safeTransfer (paymentToken ?t) (escrowAddress ?s) wi
          (amount ?t) (balances w) = Inr bal1"
      by blast
    show ?thesis
      using False wb assms(1,2,6) t1 by (simp add: resolveDispute_def Let_def)
  qed
qed


end

